theory Spec2Isabelle
  imports Complex_Main
begin

section \<open>Tables, cells and Python exceptions\<close>

text \<open>
  The four stages of the pipeline hand a pandas \<^verbatim>\<open>DataFrame\<close> to each other. A frame is
  modelled by its column labels and its rows; a row maps a column label to a cell.

  A cell is what an object column of the frame holds: the missing marker (pandas treats
  \<^verbatim>\<open>None\<close>, \<^verbatim>\<open>NaN\<close> and \<^verbatim>\<open>NaT\<close> alike in \<^verbatim>\<open>isnull\<close>,
  \<^verbatim>\<open>dropna\<close> and \<^verbatim>\<open>duplicated\<close>), a text, an integer, a float (read as the real
  number it denotes), a timestamp (seconds since the epoch, UTC), a calendar date (days
  since the epoch) or a nested JSON value such as the article's \<^verbatim>\<open>source\<close> object.
\<close>

datatype json =
    JNull
  | JBool bool
  | JInt int
  | JReal real
  | JStr string
  | JArr "json list"
  | JObj "(string \<times> json) list"

datatype cell =
    Null
  | Str string
  | Num int
  | Flt real
  | Time int
  | Date int
  | Nested json

type_synonym row = "string \<rightharpoonup> cell"

record table =
  columns :: "string list"
  rows :: "row list"

text \<open>Exceptions are values; \<open>str_exc\<close> is Python's \<^verbatim>\<open>str(e)\<close>.\<close>

datatype error =
    KeyError string
  | ValueError string
  | TypeError string
  | AttributeError string
  | RequestException string
  | HTTPError string
  | OSError string
  | DatabaseError string

fun str_exc :: "error \<Rightarrow> string" where
  "str_exc (KeyError k) = [CHR 0x27] @ k @ [CHR 0x27]"
| "str_exc (ValueError m) = m"
| "str_exc (TypeError m) = m"
| "str_exc (AttributeError m) = m"
| "str_exc (RequestException m) = m"
| "str_exc (HTTPError m) = m"
| "str_exc (OSError m) = m"
| "str_exc (DatabaseError m) = m"

text \<open>
  \<^verbatim>\<open>pd.DataFrame()\<close> has neither columns nor rows. \<^verbatim>\<open>df.empty\<close> is true when
  either axis of the frame has length zero, so a frame with columns and no rows is empty,
  and so is a frame with an index and no columns.
\<close>

definition DataFrame_empty :: table where
  "DataFrame_empty = \<lparr>columns = [], rows = []\<rparr>"

definition df_empty :: "table \<Rightarrow> bool" where
  "df_empty df \<longleftrightarrow> columns df = [] \<or> rows df = []"

definition len :: "table \<Rightarrow> nat" where
  "len df = length (rows df)"

text \<open>
  \<open>has_column\<close> is \<^verbatim>\<open>c in df.columns\<close>. \<open>cell_at df r c\<close> reads the cell of row \<open>r\<close>
  in column \<open>c\<close>: \<open>None\<close> when the frame has no such column, and the missing
  marker where the row holds nothing under a column of the frame.
\<close>

definition has_column :: "table \<Rightarrow> string \<Rightarrow> bool" where
  "has_column df c \<longleftrightarrow> c \<in> set (columns df)"

definition val :: "row \<Rightarrow> string \<Rightarrow> cell" where
  "val r c = (case r c of None \<Rightarrow> Null | Some v \<Rightarrow> v)"

definition cell_at :: "table \<Rightarrow> row \<Rightarrow> string \<Rightarrow> cell option" where
  "cell_at df r c = (if has_column df c then Some (val r c) else None)"

definition isnull :: "cell \<Rightarrow> bool" where
  "isnull v \<longleftrightarrow> v = Null"

text \<open>
  \<^verbatim>\<open>df[c] = values\<close>: an existing column keeps its position, a new one is appended.
  The values are given per row by a function of the row.
\<close>

definition assign :: "string \<Rightarrow> (row \<Rightarrow> cell) \<Rightarrow> table \<Rightarrow> table" where
  "assign c f df =
     \<lparr>columns = (if c \<in> set (columns df) then columns df else columns df @ [c]),
      rows = map (\<lambda>r. r(c \<mapsto> f r)) (rows df)\<rparr>"

text \<open>
  \<^verbatim>\<open>pd.to_datetime\<close>, applied to a column. It keeps a timestamp and the
  missing marker and reads a calendar date as its midnight; how it reads any other cell is
  the library's business, given by \<open>parse\<close> (\<open>None\<close>: the parser raises).
\<close>

definition to_datetime :: "(cell \<Rightarrow> int option) \<Rightarrow> cell \<Rightarrow> error + cell" where
  "to_datetime parse v =
     (case v of
        Null \<Rightarrow> Inr Null
      | Time t \<Rightarrow> Inr (Time t)
      | Date d \<Rightarrow> Inr (Time (d * 86400))
      | _ \<Rightarrow> (case parse v of None \<Rightarrow> Inl (ValueError ''Unknown datetime string format'')
                            | Some t \<Rightarrow> Inr (Time t)))"

fun to_datetime_column :: "(cell \<Rightarrow> int option) \<Rightarrow> string \<Rightarrow> row list \<Rightarrow> error + row list" where
  "to_datetime_column parse c [] = Inr []"
| "to_datetime_column parse c (r # rs) =
     (case to_datetime parse (val r c) of
        Inl e \<Rightarrow> Inl e
      | Inr v \<Rightarrow>
          (case to_datetime_column parse c rs of
             Inl e \<Rightarrow> Inl e
           | Inr rs' \<Rightarrow> Inr (r(c \<mapsto> v) # rs')))"

section \<open>Extract: the news API (extract_news.py)\<close>

text \<open>
  The HTTP client is external. \<open>requests_get\<close> stands for \<^verbatim>\<open>requests.get\<close>: it
  raises (connection error, timeout) or returns a response. A response has a status code
  and a body; \<open>json_body\<close> is \<open>None\<close> when \<^verbatim>\<open>response.json()\<close> raises because
  the body is not JSON. \<^verbatim>\<open>response.raise_for_status()\<close> raises \<^verbatim>\<open>HTTPError\<close> for a
  status code from 400 to 599 and for no other.
\<close>

record request =
  url :: string
  query :: string
  from_day :: int
  to_day :: int
  lang :: string
  sort_by :: string
  page_size :: int
  api_key :: "string option"

record response =
  status_code :: nat
  json_body :: "json option"

definition raise_for_status :: "response \<Rightarrow> error option" where
  "raise_for_status resp =
     (if 400 \<le> status_code resp \<and> status_code resp < 500 then Some (HTTPError ''Client Error'')
      else if 500 \<le> status_code resp \<and> status_code resp < 600 then Some (HTTPError ''Server Error'')
      else None)"

text \<open>
  What the extractor reads from its surroundings: the HTTP client, the frame constructor
  of pandas on a value that is not a list of objects, the date parser, the API key of the
  process environment and the two readings of the clock (lines 36 and 77).
\<close>

record extract_env =
  requests_get :: "request \<Rightarrow> error + response"
  frame_of :: "json \<Rightarrow> error + table"
  parse_published :: "cell \<Rightarrow> int option"
  env_api_key :: "string option"
  now_request :: int
  now_extracted :: int

text \<open>\<^verbatim>\<open>sep.join(xs)\<close>.\<close>

fun join :: "string \<Rightarrow> string list \<Rightarrow> string" where
  "join sep [] = []"
| "join sep [x] = x"
| "join sep (x # y # ys) = x @ sep @ join sep (y # ys)"

text \<open>
  Lines 36--51. Dates are day numbers; the arithmetic on them is taken to stay within
  the calendar's range.
\<close>

definition build_request :: "extract_env \<Rightarrow> string list \<Rightarrow> int \<Rightarrow> int \<Rightarrow> request" where
  "build_request env keywords days_back n =
     \<lparr>url = ''https://newsapi.org/v2/everything'',
      query = join '' OR '' keywords,
      from_day = (now_request env - days_back * 86400) div 86400,
      to_day = now_request env div 86400,
      lang = ''en'',
      sort_by = ''publishedAt'',
      page_size = n,
      api_key = env_api_key env\<rparr>"

text \<open>
  \<^verbatim>\<open>data[key]\<close> on the decoded body: a dictionary gives the value of the key (the last
  one when the key is repeated in the body) or raises \<^verbatim>\<open>KeyError\<close>; any other JSON
  value raises \<^verbatim>\<open>TypeError\<close>.
\<close>

definition json_item :: "json \<Rightarrow> string \<Rightarrow> error + json" where
  "json_item data k =
     (case data of
        JObj kvs \<Rightarrow> (case map_of (rev kvs) k of None \<Rightarrow> Inl (KeyError k) | Some v \<Rightarrow> Inr v)
      | _ \<Rightarrow> Inl (TypeError ''indices must be integers''))"

text \<open>
  \<^verbatim>\<open>pd.DataFrame(articles)\<close>. For a list of objects: a row per object, a column per
  key in the order of first appearance, the missing marker where an object lacks a key. A
  text, a number and \<^verbatim>\<open>null\<close> become text, number and missing cells; a nested value
  stays as it is. For an object whose values are all lists: a column per key and a row per
  position, and \<^verbatim>\<open>ValueError\<close> when the lists differ in length. An object whose values
  are all scalars raises \<^verbatim>\<open>ValueError\<close>, as does a text, a number or a boolean in
  place of the articles; \<^verbatim>\<open>null\<close> gives the empty frame. On any other value (a list
  that holds something else than objects, an object that mixes lists with other values)
  the constructor is \<open>frame_of\<close>.
\<close>

fun cell_of_json :: "json \<Rightarrow> cell" where
  "cell_of_json JNull = Null"
| "cell_of_json (JStr s) = Str s"
| "cell_of_json (JInt n) = Num n"
| "cell_of_json (JReal x) = Flt x"
| "cell_of_json j = Nested j"

fun object_fields :: "json \<Rightarrow> (string \<times> json) list option" where
  "object_fields (JObj kvs) = Some kvs"
| "object_fields _ = None"

definition first_seen :: "'a list \<Rightarrow> 'a list" where
  "first_seen xs = rev (remdups (rev xs))"

definition record_row :: "(string \<times> json) list \<Rightarrow> row" where
  "record_row kvs = (\<lambda>c. map_option cell_of_json (map_of (rev kvs) c))"

definition from_records :: "(string \<times> json) list list \<Rightarrow> table" where
  "from_records recs =
     \<lparr>columns = first_seen (concat (map (map fst) recs)), rows = map record_row recs\<rparr>"

fun array_items :: "json \<Rightarrow> json list option" where
  "array_items (JArr xs) = Some xs"
| "array_items _ = None"

fun is_scalar :: "json \<Rightarrow> bool" where
  "is_scalar (JArr xs) = False"
| "is_scalar (JObj kvs) = False"
| "is_scalar _ = True"

text \<open>The dictionary that a JSON object decodes to: a repeated key keeps its last value.\<close>

definition object_items :: "(string \<times> json) list \<Rightarrow> (string \<times> json) list" where
  "object_items kvs = map (\<lambda>k. (k, the (map_of (rev kvs) k))) (first_seen (map fst kvs))"

definition from_columns :: "(string \<times> json) list \<Rightarrow> nat \<Rightarrow> table" where
  "from_columns cols n =
     \<lparr>columns = map fst cols,
      rows = map (\<lambda>i. (\<lambda>c. map_option (\<lambda>v. cell_of_json (the (array_items v) ! i)) (map_of cols c)))
                 [0..<n]\<rparr>"

definition DataFrame :: "extract_env \<Rightarrow> json \<Rightarrow> error + table" where
  "DataFrame env data =
     (case data of
        JNull \<Rightarrow> Inr DataFrame_empty
      | JArr items \<Rightarrow>
          (if list_all (\<lambda>j. object_fields j \<noteq> None) items
           then Inr (from_records (map (\<lambda>j. the (object_fields j)) items))
           else frame_of env data)
      | JObj kvs \<Rightarrow>
          (if list_all (\<lambda>(k, v). array_items v \<noteq> None) (object_items kvs) then
             (case remdups (map (\<lambda>(k, v). length (the (array_items v))) (object_items kvs)) of
                [] \<Rightarrow> Inr DataFrame_empty
              | [n] \<Rightarrow> Inr (from_columns (object_items kvs) n)
              | _ \<Rightarrow> Inl (ValueError ''All arrays must be of the same length''))
           else if list_all (\<lambda>(k, v). is_scalar v) (object_items kvs)
           then Inl (ValueError ''If using all scalar values, you must pass an index'')
           else frame_of env data)
      | _ \<Rightarrow> Inl (ValueError ''DataFrame constructor not properly called!''))"

text \<open>
  Line 69: the name of the nested source object, \<^verbatim>\<open>Unknown\<close> when the object has no
  name or the cell is not an object. \<^verbatim>\<open>df['source']\<close> raises \<^verbatim>\<open>KeyError\<close> when
  the frame has no such column.
\<close>

definition source_name :: "cell \<Rightarrow> cell" where
  "source_name x =
     (case x of
        Nested (JObj kvs) \<Rightarrow>
          (case map_of (rev kvs) ''name'' of None \<Rightarrow> Str ''Unknown'' | Some v \<Rightarrow> cell_of_json v)
      | _ \<Rightarrow> Str ''Unknown'')"

definition basic_cleaning :: "extract_env \<Rightarrow> table \<Rightarrow> error + table" where
  "basic_cleaning env df =
     (if \<not> has_column df ''source'' then Inl (KeyError ''source'')
      else
        (let df1 = assign ''source_name'' (\<lambda>r. source_name (val r ''source'')) df in
         if \<not> has_column df1 ''publishedAt'' then Inl (KeyError ''publishedAt'')
         else
           (case to_datetime_column (parse_published env) ''publishedAt'' (rows df1) of
              Inl e \<Rightarrow> Inl e
            | Inr rs \<Rightarrow>
                Inr (assign ''extracted_at'' (\<lambda>r. Time (now_extracted env)) (df1\<lparr>rows := rs\<rparr>)))))"

text \<open>The body of the \<^verbatim>\<open>try\<close>, lines 54--86.\<close>

definition fetch :: "extract_env \<Rightarrow> request \<Rightarrow> error + table" where
  "fetch env req =
     (case requests_get env req of
        Inl e \<Rightarrow> Inl e
      | Inr resp \<Rightarrow>
          (case raise_for_status resp of
             Some e \<Rightarrow> Inl e
           | None \<Rightarrow>
               (case json_body resp of
                  None \<Rightarrow> Inl (ValueError ''Expecting value'')
                | Some data \<Rightarrow>
                    (case json_item data ''status'' of
                       Inl e \<Rightarrow> Inl e
                     | Inr st \<Rightarrow>
                         (if st = JStr ''ok'' then
                            (case json_item data ''articles'' of
                               Inl e \<Rightarrow> Inl e
                             | Inr articles \<Rightarrow>
                                 (case DataFrame env articles of
                                    Inl e \<Rightarrow> Inl e
                                  | Inr df \<Rightarrow>
                                      (if \<not> df_empty df then basic_cleaning env df
                                       else Inr DataFrame_empty)))
                          else Inr DataFrame_empty)))))"

text \<open>
  \<^verbatim>\<open>extract_financial_news\<close>: both \<^verbatim>\<open>except\<close> clauses return \<^verbatim>\<open>pd.DataFrame()\<close>.
\<close>

definition extract_financial_news ::
  "extract_env \<Rightarrow> string list \<Rightarrow> int \<Rightarrow> int \<Rightarrow> error + table" where
  "extract_financial_news env keywords days_back n =
     (case fetch env (build_request env keywords days_back n) of
        Inl e \<Rightarrow> Inr DataFrame_empty
      | Inr df \<Rightarrow> Inr df)"

definition default_keywords :: "string list" where
  "default_keywords = [''stocks'', ''market'', ''finance'', ''economy'']"

text \<open>
  The failures the specification lists for the extractor, as properties of what the HTTP
  client gives for the request.
\<close>

definition request_failed :: "error + response \<Rightarrow> bool" where
  "request_failed outcome = (case outcome of Inl e \<Rightarrow> True | Inr resp \<Rightarrow> False)"

definition non_2xx :: "error + response \<Rightarrow> bool" where
  "non_2xx outcome =
     (case outcome of Inl e \<Rightarrow> False
      | Inr resp \<Rightarrow> status_code resp < 200 \<or> 300 \<le> status_code resp)"

definition error_status :: "error + response \<Rightarrow> bool" where
  "error_status outcome =
     (case outcome of Inl e \<Rightarrow> False
      | Inr resp \<Rightarrow> 400 \<le> status_code resp \<and> status_code resp < 600)"

text \<open>
  An articles value from which the extractor gets no frame of articles: the constructor
  raises, or the frame it builds is empty, has no source column, has no publication time
  column, or holds a publication time that the date parser refuses.
\<close>

definition unparsed :: "extract_env \<Rightarrow> table \<Rightarrow> bool" where
  "unparsed env df =
     (\<exists>r \<in> set (rows df).
        case to_datetime (parse_published env) (val r ''publishedAt'') of
          Inl e \<Rightarrow> True | Inr v \<Rightarrow> False)"

definition no_article_frame :: "extract_env \<Rightarrow> json \<Rightarrow> bool" where
  "no_article_frame env articles =
     (case DataFrame env articles of
        Inl e \<Rightarrow> True
      | Inr df \<Rightarrow>
          df_empty df \<or> \<not> has_column df ''source'' \<or> \<not> has_column df ''publishedAt''
          \<or> unparsed env df)"

text \<open>
  A malformed envelope, as the extractor meets it: the body is not JSON, is not an object
  with a status, or says \<open>ok\<close> and has no articles or articles that give no frame of
  articles.
\<close>

definition malformed_envelope :: "extract_env \<Rightarrow> error + response \<Rightarrow> bool" where
  "malformed_envelope env outcome =
     (case outcome of Inl e \<Rightarrow> False
      | Inr resp \<Rightarrow>
          (case json_body resp of
             None \<Rightarrow> True
           | Some data \<Rightarrow>
               (case json_item data ''status'' of
                  Inl e \<Rightarrow> True
                | Inr st \<Rightarrow>
                    st = JStr ''ok'' \<and>
                    (case json_item data ''articles'' of
                       Inl e \<Rightarrow> True
                     | Inr a \<Rightarrow> no_article_frame env a))))"

text \<open>
  The envelope of the API's interface: an object with a status that, when the status is
  \<open>ok\<close>, holds the articles as an array of objects.
\<close>

definition envelope_shape :: "json \<Rightarrow> bool" where
  "envelope_shape data =
     (case json_item data ''status'' of
        Inl e \<Rightarrow> False
      | Inr st \<Rightarrow>
          st \<noteq> JStr ''ok'' \<or>
          (case json_item data ''articles'' of
             Inl e \<Rightarrow> False
           | Inr a \<Rightarrow>
               (case array_items a of
                  None \<Rightarrow> False
                | Some items \<Rightarrow> list_all (\<lambda>j. object_fields j \<noteq> None) items)))"

definition api_status_not_ok :: "error + response \<Rightarrow> bool" where
  "api_status_not_ok outcome =
     (case outcome of Inl e \<Rightarrow> False
      | Inr resp \<Rightarrow>
          (case json_body resp of
             None \<Rightarrow> False
           | Some data \<Rightarrow>
               (case json_item data ''status'' of
                  Inl e \<Rightarrow> False
                | Inr st \<Rightarrow> st \<noteq> JStr ''ok'')))"

section \<open>Validate: quality checks and cleaning (validate_data.py)\<close>

text \<open>
  The quality report is a Python dictionary whose keys are set along the way; a key that
  was never set is \<open>None\<close> here. The freshness entry of the checks is set by check 3
  only.
\<close>

record freshness =
  oldest :: int
  newest :: int
  span_days :: int

record content_quality =
  short_titles :: nat
  short_descriptions :: nat

record checks =
  missing_values :: "(string \<times> nat) list"
  duplicates :: nat
  freshness :: "freshness option"
  content :: content_quality

record quality_report =
  status :: string
  reason :: "string option"
  timestamp :: "int option"
  initial_records :: "nat option"
  checks :: "checks option"
  final_records :: "nat option"
  removed_records :: "int option"
  removal_percentage :: "real option"

text \<open>The report of line 23, returned for an empty frame: two keys and no other.\<close>

definition empty_report :: quality_report where
  "empty_report =
     \<lparr>status = ''FAILED'', reason = Some ''Empty dataframe'', timestamp = None,
      initial_records = None, checks = None, final_records = None,
      removed_records = None, removal_percentage = None\<rparr>"

subsection \<open>Check 1: missing critical fields\<close>

definition critical_fields :: "string list" where
  "critical_fields = [''title'', ''description'', ''url'', ''publishedAt'']"

definition count_rows :: "(row \<Rightarrow> bool) \<Rightarrow> table \<Rightarrow> nat" where
  "count_rows p df = length (filter p (rows df))"

definition missing_count :: "table \<Rightarrow> string \<Rightarrow> nat" where
  "missing_count df field =
     (if has_column df field then count_rows (\<lambda>r. isnull (val r field)) df else len df)"

definition check_missing :: "table \<Rightarrow> (string \<times> nat) list" where
  "check_missing df = map (\<lambda>field. (field, missing_count df field)) critical_fields"

subsection \<open>Check 2: duplicates by title and publication time\<close>

text \<open>
  \<^verbatim>\<open>df.duplicated(subset=...)\<close> and \<^verbatim>\<open>df.drop_duplicates(subset=...)\<close> raise
  \<^verbatim>\<open>KeyError\<close> when a column of the subset is not in the frame. A row is a duplicate
  when an earlier row has the same cells in the subset; the first occurrence is kept.
\<close>

definition dup_key :: "row \<Rightarrow> cell \<times> cell" where
  "dup_key r = (val r ''title'', val r ''publishedAt'')"

definition subset_check :: "string list \<Rightarrow> table \<Rightarrow> error option" where
  "subset_check cols df =
     (case filter (\<lambda>c. \<not> has_column df c) cols of
        [] \<Rightarrow> None
      | c # _ \<Rightarrow> Some (KeyError c))"

fun drop_seen :: "('a \<Rightarrow> 'k) \<Rightarrow> 'k list \<Rightarrow> 'a list \<Rightarrow> 'a list" where
  "drop_seen key seen [] = []"
| "drop_seen key seen (r # rs) =
     (if key r \<in> set seen then drop_seen key seen rs
      else r # drop_seen key (key r # seen) rs)"

definition duplicated_count :: "table \<Rightarrow> error + nat" where
  "duplicated_count df =
     (case subset_check [''title'', ''publishedAt''] df of
        Some e \<Rightarrow> Inl e
      | None \<Rightarrow> Inr (len df - length (drop_seen dup_key [] (rows df))))"

definition drop_duplicates :: "table \<Rightarrow> error + table" where
  "drop_duplicates df =
     (case subset_check [''title'', ''publishedAt''] df of
        Some e \<Rightarrow> Inl e
      | None \<Rightarrow> Inr (df\<lparr>rows := drop_seen dup_key [] (rows df)\<rparr>))"

subsection \<open>Check 3: freshness\<close>

text \<open>
  Lines 66--85. The assignment of line 67 writes the parsed column into the frame the
  caller passed. The minimum and maximum skip missing timestamps; when every timestamp is
  missing they are \<^verbatim>\<open>NaT\<close>, and formatting it on line 77 raises. The age is the
  \<^verbatim>\<open>days\<close> field of a time difference: the floor of the difference in days.
\<close>

definition time_of :: "cell \<Rightarrow> int option" where
  "time_of v = (case v of Time t \<Rightarrow> Some t | _ \<Rightarrow> None)"

definition column_times :: "string \<Rightarrow> table \<Rightarrow> int list" where
  "column_times c df = List.map_filter (\<lambda>r. time_of (val r c)) (rows df)"

definition check_freshness ::
  "(cell \<Rightarrow> int option) \<Rightarrow> int \<Rightarrow> table \<Rightarrow> error + table \<times> freshness option" where
  "check_freshness parse now df =
     (if has_column df ''publishedAt'' then
        (case to_datetime_column parse ''publishedAt'' (rows df) of
           Inl e \<Rightarrow> Inl e
         | Inr rs \<Rightarrow>
             (case column_times ''publishedAt'' (df\<lparr>rows := rs\<rparr>) of
                [] \<Rightarrow> Inl (ValueError ''NaTType does not support strftime'')
              | t # ts \<Rightarrow>
                  Inr (df\<lparr>rows := rs\<rparr>,
                       Some \<lparr>oldest = fold min ts t, newest = fold max ts t,
                             span_days = (now - fold min ts t) div 86400\<rparr>)))
      else Inr (df, None))"

subsection \<open>Check 4: content quality\<close>

text \<open>
  \<^verbatim>\<open>.str.len()\<close> is the length of a text, of a list or of a dictionary, and missing for
  any other cell; a comparison with a missing length is false. The text columns are
  object columns, on which the \<^verbatim>\<open>.str\<close> accessor is defined.
\<close>

definition str_len :: "cell \<Rightarrow> nat option" where
  "str_len v =
     (case v of
        Str s \<Rightarrow> Some (length s)
      | Nested (JArr xs) \<Rightarrow> Some (length xs)
      | Nested (JObj kvs) \<Rightarrow> Some (length (remdups (map fst kvs)))
      | _ \<Rightarrow> None)"

definition len_lt :: "cell \<Rightarrow> nat \<Rightarrow> bool" where
  "len_lt v n = (case str_len v of None \<Rightarrow> False | Some k \<Rightarrow> k < n)"

definition len_ge :: "cell \<Rightarrow> nat \<Rightarrow> bool" where
  "len_ge v n = (case str_len v of None \<Rightarrow> False | Some k \<Rightarrow> k \<ge> n)"

definition check_content :: "table \<Rightarrow> content_quality" where
  "check_content df =
     \<lparr>short_titles =
        (if has_column df ''title'' then count_rows (\<lambda>r. len_lt (val r ''title'') 10) df else 0),
      short_descriptions =
        (if has_column df ''description''
         then count_rows (\<lambda>r. len_lt (val r ''description'') 20) df else 0)\<rparr>"

subsection \<open>The check phase\<close>

text \<open>
  Lines 35--103: the four checks in order. The result is the frame the caller passed, as
  the checks leave it, and the checks' entries of the report. Check 3 sits in the
  \<^verbatim>\<open>else\<close> branch of the duplicate test.
\<close>

definition run_checks ::
  "(cell \<Rightarrow> int option) \<Rightarrow> int \<Rightarrow> table \<Rightarrow> error + table \<times> checks" where
  "run_checks parse now df =
     (case duplicated_count df of
        Inl e \<Rightarrow> Inl e
      | Inr dups \<Rightarrow>
          (case (if dups > 0 then Inr (df, None) else check_freshness parse now df) of
             Inl e \<Rightarrow> Inl e
           | Inr (df', fresh) \<Rightarrow>
               Inr (df', \<lparr>missing_values = check_missing df, duplicates = dups,
                           freshness = fresh, content = check_content df'\<rparr>)))"

subsection \<open>Cleaning\<close>

text \<open>
  Lines 109--124, on a copy of the frame. \<^verbatim>\<open>dropna(subset=...)\<close> raises
  \<^verbatim>\<open>KeyError\<close> for a column that is not in the frame.
\<close>

definition dropna :: "string list \<Rightarrow> table \<Rightarrow> error + table" where
  "dropna cols df =
     (case subset_check cols df of
        Some e \<Rightarrow> Inl e
      | None \<Rightarrow> Inr (df\<lparr>rows := filter (\<lambda>r. \<forall>c \<in> set cols. \<not> isnull (val r c)) (rows df)\<rparr>))"

definition keep_rows :: "(row \<Rightarrow> bool) \<Rightarrow> table \<Rightarrow> table" where
  "keep_rows p df = df\<lparr>rows := filter p (rows df)\<rparr>"

definition cleaning :: "table \<Rightarrow> error + table" where
  "cleaning df =
     (case dropna [''title'', ''description''] df of
        Inl e \<Rightarrow> Inl e
      | Inr df1 \<Rightarrow>
          (case drop_duplicates df1 of
             Inl e \<Rightarrow> Inl e
           | Inr df2 \<Rightarrow>
               (let df3 = (if has_column df2 ''title''
                           then keep_rows (\<lambda>r. len_ge (val r ''title'') 10) df2 else df2);
                    df4 = (if has_column df3 ''description''
                           then keep_rows (\<lambda>r. len_ge (val r ''description'') 20) df3 else df3)
                in Inr df4)))"

subsection \<open>The report and the whole validator\<close>

definition percentage :: "int \<Rightarrow> nat \<Rightarrow> real" where
  "percentage removed initial_count =
     (if initial_count > 0 then real_of_int removed / real initial_count * 100 else 0)"

definition final_report :: "int \<Rightarrow> nat \<Rightarrow> checks \<Rightarrow> nat \<Rightarrow> quality_report" where
  "final_report stamp initial_count cs final_count =
     (let removed = int initial_count - int final_count;
          pct = percentage removed initial_count
      in \<lparr>status = (if final_count = 0 then ''FAILED''
                     else if pct > 50 then ''WARNING'' else ''PASSED''),
          reason = (if final_count = 0 then Some ''No records after cleaning''
                    else if pct > 50 then Some ''High removal rate'' else None),
          timestamp = Some stamp,
          initial_records = Some initial_count,
          checks = Some cs,
          final_records = Some final_count,
          removed_records = Some removed,
          removal_percentage = Some pct\<rparr>)"

text \<open>
  \<^verbatim>\<open>validate_news_data\<close>. \<open>stamp\<close> and \<open>now\<close> are the two readings of the clock
  (lines 30 and 75). The result is the frame the caller passed as the call leaves it, the
  cleaned frame and the report. On an empty frame the function returns the frame itself.
\<close>

definition validate_news_data ::
  "(cell \<Rightarrow> int option) \<Rightarrow> int \<Rightarrow> int \<Rightarrow> table \<Rightarrow> error + table \<times> table \<times> quality_report" where
  "validate_news_data parse stamp now df =
     (if df_empty df then Inr (df, df, empty_report)
      else
        (case run_checks parse now df of
           Inl e \<Rightarrow> Inl e
         | Inr (df', cs) \<Rightarrow>
             (case cleaning df' of
                Inl e \<Rightarrow> Inl e
              | Inr df_clean \<Rightarrow>
                  Inr (df', df_clean, final_report stamp (len df) cs (len df_clean)))))"

subsection \<open>The rows that survive cleaning\<close>

text \<open>
  The four steps of the cleaning, composed on the rows of a frame that has the title,
  description and publication time columns: the form in which the properties of the
  cleaned frame are proved.
\<close>

definition clean_rows :: "row list \<Rightarrow> row list" where
  "clean_rows rs =
     filter (\<lambda>r. len_ge (val r ''description'') 20)
       (filter (\<lambda>r. len_ge (val r ''title'') 10)
         (drop_seen dup_key []
           (filter (\<lambda>r. \<not> isnull (val r ''title'') \<and> \<not> isnull (val r ''description'')) rs)))"

section \<open>Transform: sentiment scores and labels (transform_sentiment.py)\<close>

text \<open>
  The scorer \<^verbatim>\<open>SentimentIntensityAnalyzer.polarity_scores\<close> is an external library: it
  is a parameter, and may raise. Its result holds the four scores.
\<close>

record scores =
  compound :: real
  pos :: real
  neg :: real
  neu :: real

text \<open>
  \<^verbatim>\<open>categorize_sentiment\<close>, lines 53--59. The thresholds are the literals \<^verbatim>\<open>0.05\<close>
  and \<^verbatim>\<open>-0.05\<close>; on the floats the scorer returns, comparing with the literal's
  nearest double and comparing with the exact decimal agree, since no double lies strictly
  between the two.
\<close>

definition categorize_sentiment :: "real \<Rightarrow> string" where
  "categorize_sentiment compound_score =
     (if compound_score \<ge> 0.05 then ''positive''
      else if compound_score \<le> - 0.05 then ''negative''
      else ''neutral'')"

text \<open>
  \<^verbatim>\<open>str(row.get(c, ''))\<close>: the empty text when the frame has no column \<open>c\<close>, the text
  itself for a text cell, and Python's rendering \<open>render\<close> of any other cell.
\<close>

definition py_str :: "(cell \<Rightarrow> string) \<Rightarrow> cell \<Rightarrow> string" where
  "py_str render v = (case v of Str s \<Rightarrow> s | _ \<Rightarrow> render v)"

definition row_get_str :: "(cell \<Rightarrow> string) \<Rightarrow> table \<Rightarrow> row \<Rightarrow> string \<Rightarrow> string" where
  "row_get_str render df r c = (case cell_at df r c of None \<Rightarrow> [] | Some v \<Rightarrow> py_str render v)"

definition analyze_article ::
  "(cell \<Rightarrow> string) \<Rightarrow> (string \<Rightarrow> error + scores) \<Rightarrow> table \<Rightarrow> row \<Rightarrow> error + scores" where
  "analyze_article render polarity_scores df r =
     polarity_scores (row_get_str render df r ''title'' @ '' '' @ row_get_str render df r ''description'')"

text \<open>
  \<^verbatim>\<open>df.apply(analyze_article, axis=1)\<close> followed by \<^verbatim>\<open>pd.concat([df, sentiment_df], axis=1)\<close>:
  the rows are scored in order, the first exception aborts the whole transform, and each
  row receives its four scores.
\<close>

definition with_scores :: "row \<Rightarrow> scores \<Rightarrow> row" where
  "with_scores r s =
     r(''sentiment_compound'' \<mapsto> Flt (compound s),
       ''sentiment_positive'' \<mapsto> Flt (pos s),
       ''sentiment_negative'' \<mapsto> Flt (neg s),
       ''sentiment_neutral'' \<mapsto> Flt (neu s))"

fun apply_scores ::
  "(cell \<Rightarrow> string) \<Rightarrow> (string \<Rightarrow> error + scores) \<Rightarrow> table \<Rightarrow> row list \<Rightarrow> error + row list" where
  "apply_scores render polarity_scores df [] = Inr []"
| "apply_scores render polarity_scores df (r # rs) =
     (case analyze_article render polarity_scores df r of
        Inl e \<Rightarrow> Inl e
      | Inr s \<Rightarrow>
          (case apply_scores render polarity_scores df rs of
             Inl e \<Rightarrow> Inl e
           | Inr rs' \<Rightarrow> Inr (with_scores r s # rs')))"

definition sentiment_columns :: "string list" where
  "sentiment_columns =
     [''sentiment_compound'', ''sentiment_positive'', ''sentiment_negative'', ''sentiment_neutral'']"

text \<open>
  The label of a row is \<^verbatim>\<open>categorize_sentiment\<close> of its compound score. A missing score
  (\<^verbatim>\<open>NaN\<close>) fails both comparisons and is labelled neutral.
\<close>

definition label_of :: "row \<Rightarrow> cell" where
  "label_of r =
     (case val r ''sentiment_compound'' of
        Flt c \<Rightarrow> Str (categorize_sentiment c)
      | _ \<Rightarrow> Str ''neutral'')"

text \<open>The calendar features of lines 66--70, from the parsed publication time.\<close>

definition day_names :: "string list" where
  "day_names = [''Thursday'', ''Friday'', ''Saturday'', ''Sunday'', ''Monday'', ''Tuesday'', ''Wednesday'']"

definition dt_date :: "cell \<Rightarrow> cell" where
  "dt_date v = (case v of Time t \<Rightarrow> Date (t div 86400) | _ \<Rightarrow> Null)"

definition dt_hour :: "cell \<Rightarrow> cell" where
  "dt_hour v = (case v of Time t \<Rightarrow> Num ((t mod 86400) div 3600) | _ \<Rightarrow> Null)"

definition dt_day_name :: "cell \<Rightarrow> cell" where
  "dt_day_name v = (case v of Time t \<Rightarrow> Str (day_names ! nat ((t div 86400) mod 7)) | _ \<Rightarrow> Null)"

definition date_features :: "(cell \<Rightarrow> int option) \<Rightarrow> table \<Rightarrow> error + table" where
  "date_features parse df =
     (if has_column df ''publishedAt'' then
        (case to_datetime_column parse ''publishedAt'' (rows df) of
           Inl e \<Rightarrow> Inl e
         | Inr rs \<Rightarrow>
             Inr (assign ''day_of_week'' (\<lambda>r. dt_day_name (val r ''publishedAt''))
                   (assign ''hour'' (\<lambda>r. dt_hour (val r ''publishedAt''))
                     (assign ''date'' (\<lambda>r. dt_date (val r ''publishedAt''))
                       (df\<lparr>rows := rs\<rparr>)))))
      else Inr df)"

text \<open>
  \<^verbatim>\<open>add_sentiment_analysis\<close>. An empty frame is returned as it is. A frame that already
  has a \<^verbatim>\<open>sentiment_compound\<close> column gets a second one from the concatenation, the
  selection of line 61 is then a frame and \<^verbatim>\<open>categorize_sentiment\<close> raises on a whole
  column. A row of the model holds one cell per label, so a second column of one of the
  other three score labels is not represented.
\<close>

definition add_sentiment_analysis ::
  "(cell \<Rightarrow> string) \<Rightarrow> (string \<Rightarrow> error + scores) \<Rightarrow> (cell \<Rightarrow> int option) \<Rightarrow> table \<Rightarrow> error + table" where
  "add_sentiment_analysis render polarity_scores parse df =
     (if df_empty df then Inr df
      else
        (case apply_scores render polarity_scores df (rows df) of
           Inl e \<Rightarrow> Inl e
         | Inr rs \<Rightarrow>
             (if has_column df ''sentiment_compound'' then
                Inl (ValueError ''The truth value of a Series is ambiguous'')
              else
                date_features parse
                  (assign ''sentiment_label'' label_of
                    \<lparr>columns = columns df @ filter (\<lambda>c. c \<notin> set (columns df)) sentiment_columns,
                     rows = rs\<rparr>))))"

section \<open>Load: the database table (load_to_database.py)\<close>

text \<open>
  A database maps a table name to the rows of the table; a name that is not mapped is a
  table that does not exist. The engine is external: \<open>connect\<close> tells whether
  \<^verbatim>\<open>duckdb.connect\<close> raises for a path, \<open>cast\<close> is the engine's conversion of a
  cell into the type of a column of the schema (\<open>None\<close>: a conversion error), and
  \<open>parse_date\<close> is the date parser of pandas.
\<close>

type_synonym database = "string \<rightharpoonup> row list"

record load_env =
  connect :: "string \<Rightarrow> error option"
  parse_date :: "cell \<Rightarrow> int option"
  cast :: "string \<Rightarrow> cell \<Rightarrow> cell option"

definition schema_columns :: "string list" where
  "schema_columns =
     [''title'', ''description'', ''url'', ''source_name'',
      ''publishedAt'', ''date'', ''hour'',
      ''sentiment_compound'', ''sentiment_positive'', ''sentiment_negative'',
      ''sentiment_neutral'', ''sentiment_label'', ''extracted_at'']"

text \<open>Lines 62--64: \<^verbatim>\<open>pd.to_datetime(df['date']).dt.date\<close>.\<close>

definition coerce_date :: "load_env \<Rightarrow> table \<Rightarrow> error + table" where
  "coerce_date env df =
     (if has_column df ''date'' then
        (case to_datetime_column (parse_date env) ''date'' (rows df) of
           Inl e \<Rightarrow> Inl e
         | Inr rs \<Rightarrow> Inr (assign ''date'' (\<lambda>r. dt_date (val r ''date'')) (df\<lparr>rows := rs\<rparr>)))
      else Inr df)"

text \<open>Lines 67--76: the columns of the schema that the frame has, in the schema's order.\<close>

definition select_columns :: "string list \<Rightarrow> table \<Rightarrow> table" where
  "select_columns cols df = \<lparr>columns = cols, rows = map (\<lambda>r. r |` set cols) (rows df)\<rparr>"

text \<open>
  Line 81, \<^verbatim>\<open>INSERT INTO news_sentiment SELECT * FROM df_to_load\<close>: the columns are
  matched by position, so the statement fails unless the frame has as many columns as
  the table; every cell is cast to the type of its column, and one failed cast fails the
  whole statement.
\<close>

fun cast_row :: "(string \<Rightarrow> cell \<Rightarrow> cell option) \<Rightarrow> string list \<Rightarrow> row \<Rightarrow> row option" where
  "cast_row cst [] r = Some Map.empty"
| "cast_row cst (c # cs) r =
     (case cst c (val r c) of
        None \<Rightarrow> None
      | Some v \<Rightarrow> (case cast_row cst cs r of None \<Rightarrow> None | Some m \<Rightarrow> Some (m(c \<mapsto> v))))"

fun cast_rows :: "(string \<Rightarrow> cell \<Rightarrow> cell option) \<Rightarrow> string list \<Rightarrow> row list \<Rightarrow> row list option" where
  "cast_rows cst cs [] = Some []"
| "cast_rows cst cs (r # rs) =
     (case cast_row cst cs r of
        None \<Rightarrow> None
      | Some m \<Rightarrow> (case cast_rows cst cs rs of None \<Rightarrow> None | Some ms \<Rightarrow> Some (m # ms)))"

definition insert_select :: "load_env \<Rightarrow> table \<Rightarrow> error + row list" where
  "insert_select env df =
     (if length (columns df) \<noteq> length schema_columns
      then Inl (DatabaseError ''Binder Error: table news_sentiment has 13 columns'')
      else
        (case cast_rows (cast env) schema_columns
                (map (\<lambda>r. (\<lambda>c. map_option (\<lambda>k. val r k) (map_of (zip schema_columns (columns df)) c)))
                     (rows df)) of
           None \<Rightarrow> Inl (DatabaseError ''Conversion Error'')
         | Some stored \<Rightarrow> Inr stored))"

text \<open>
  \<^verbatim>\<open>load_to_duckdb\<close>. The result is the returned flag and the database as the call
  leaves it. The statements are committed one by one: after the table is dropped and
  created anew it stays empty when a later step raises. The queries after the insert
  (lines 84--105) read the table and print; they are not modelled.
\<close>

definition load_to_duckdb ::
  "load_env \<Rightarrow> int \<Rightarrow> table \<Rightarrow> string \<Rightarrow> database \<Rightarrow> bool \<times> database" where
  "load_to_duckdb env now df db_path db =
     (if df_empty df then (False, db)
      else
        (case connect env db_path of
           Some e \<Rightarrow> (False, db)
         | None \<Rightarrow>
             (let db1 = db(''news_sentiment'' \<mapsto> []);
                  df1 = (if \<not> has_column df ''extracted_at''
                         then assign ''extracted_at'' (\<lambda>r. Time now) df else df)
              in case coerce_date env df1 of
                   Inl e \<Rightarrow> (False, db1)
                 | Inr df2 \<Rightarrow>
                     (let available_cols = filter (has_column df2) schema_columns;
                          df3 = select_columns available_cols df2
                      in case insert_select env df3 of
                           Inl e \<Rightarrow> (False, db1)
                         | Inr stored \<Rightarrow> (True, db1(''news_sentiment'' \<mapsto> stored))))))"

definition default_db_path :: string where
  "default_db_path = ''../data/financial_news.db''"


section \<open>The pipeline runner (run_pipeline.py)\<close>

text \<open>
  The three functions that write a file. Writing is external: \<open>write\<close> tells whether
  writing a path raises. The first two write nothing for an empty frame. The report writer
  opens the file and then reads the keys of the report in the order of lines 161--167; a
  key that is not set raises \<^verbatim>\<open>KeyError\<close>.
\<close>

definition save_raw_data :: "(string \<Rightarrow> error option) \<Rightarrow> table \<Rightarrow> error option" where
  "save_raw_data write df = (if \<not> df_empty df then write ''../data/raw_news.csv'' else None)"

definition save_transformed_data :: "(string \<Rightarrow> error option) \<Rightarrow> table \<Rightarrow> error option" where
  "save_transformed_data write df =
     (if \<not> df_empty df then write ''../data/news_with_sentiment.csv'' else None)"

definition save_quality_report :: "(string \<Rightarrow> error option) \<Rightarrow> quality_report \<Rightarrow> error option" where
  "save_quality_report write report =
     (case write ''../data/quality_report.txt'' of
        Some e \<Rightarrow> Some e
      | None \<Rightarrow>
          (if timestamp report = None then Some (KeyError ''timestamp'')
           else if initial_records report = None then Some (KeyError ''initial_records'')
           else if final_records report = None then Some (KeyError ''final_records'')
           else if removed_records report = None then Some (KeyError ''removed_records'')
           else if removal_percentage report = None then Some (KeyError ''removal_percentage'')
           else if checks report = None then Some (KeyError ''checks'')
           else None))"

text \<open>
  \<^verbatim>\<open>df[c].mean()\<close>: \<^verbatim>\<open>KeyError\<close> without the column; the mean of the numbers of the
  column, skipping missing cells, \<^verbatim>\<open>NaN\<close> (\<open>None\<close>) when there is none; a cell that
  is neither a number nor missing raises.
\<close>

definition number_of :: "cell \<Rightarrow> real option" where
  "number_of v = (case v of Flt x \<Rightarrow> Some x | Num k \<Rightarrow> Some (real_of_int k) | _ \<Rightarrow> None)"

definition column_mean :: "table \<Rightarrow> string \<Rightarrow> error + real option" where
  "column_mean df c =
     (if \<not> has_column df c then Inl (KeyError c)
      else if \<exists>r \<in> set (rows df). \<not> isnull (val r c) \<and> number_of (val r c) = None
      then Inl (TypeError ''Could not convert to numeric'')
      else
        (case List.map_filter (\<lambda>r. number_of (val r c)) (rows df) of
           [] \<Rightarrow> Inr None
         | x # xs \<Rightarrow> Inr (Some (sum_list (x # xs) / real (length (x # xs))))))"

text \<open>The decimal digits of a natural number, as an f-string prints a length.\<close>

fun show_nat :: "nat \<Rightarrow> string" where
  "show_nat n =
     (if n < 10 then [''0123456789'' ! n]
      else show_nat (n div 10) @ [''0123456789'' ! (n mod 10)])"

declare show_nat.simps [simp del]

text \<open>
  The run status of lines 22--26, and the calls of the stage functions and of the file
  writers that a run makes, in order.
\<close>

record pipeline_status =
  start_time :: int
  steps :: "(string \<times> string) list"
  overall_status :: string
  end_time :: "int option"

datatype call =
    Extract_financial_news
  | Save_raw_data
  | Validate_news_data
  | Save_quality_report
  | Add_sentiment_analysis
  | Save_transformed_data
  | Load_to_duckdb

text \<open>
  The functions the runner imports, as it uses them: what each returns or raises. The
  loader also changes the database. \<open>format_3f\<close> prints the mean score with three
  decimals; \<open>clock_start\<close> and \<open>clock_end\<close> are the readings of lines 23 and 119.
\<close>

record stages =
  extract_stage :: "int \<Rightarrow> int \<Rightarrow> error + table"
  save_raw_stage :: "table \<Rightarrow> error option"
  validate_stage :: "table \<Rightarrow> error + table \<times> quality_report"
  save_report_stage :: "quality_report \<Rightarrow> error option"
  transform_stage :: "table \<Rightarrow> error + table"
  save_transformed_stage :: "table \<Rightarrow> error option"
  load_stage :: "table \<Rightarrow> database \<Rightarrow> (error + bool) \<times> database"
  format_3f :: "real option \<Rightarrow> string"
  clock_start :: int
  clock_end :: int

definition failed :: "pipeline_status \<Rightarrow> string \<Rightarrow> string \<Rightarrow> pipeline_status" where
  "failed ps step outcome =
     ps\<lparr>overall_status := ''FAILED'', steps := steps ps @ [(step, outcome)]\<rparr>"

definition degraded :: "pipeline_status \<Rightarrow> string \<Rightarrow> string \<Rightarrow> pipeline_status" where
  "degraded ps step outcome =
     ps\<lparr>overall_status := ''WARNING'', steps := steps ps @ [(step, outcome)]\<rparr>"

definition recorded :: "pipeline_status \<Rightarrow> string \<Rightarrow> string \<Rightarrow> pipeline_status" where
  "recorded ps step outcome = ps\<lparr>steps := steps ps @ [(step, outcome)]\<rparr>"

definition finished :: "stages \<Rightarrow> pipeline_status \<Rightarrow> pipeline_status" where
  "finished st ps = ps\<lparr>end_time := Some (clock_end st)\<rparr>"

text \<open>
  Step 4 and the summary, lines 103--141. A failed load degrades the status to
  \<^verbatim>\<open>WARNING\<close>; the run goes on to the summary either way.
\<close>

definition stage_load ::
  "stages \<Rightarrow> pipeline_status \<Rightarrow> call list \<Rightarrow> database \<Rightarrow> table
     \<Rightarrow> pipeline_status \<times> call list \<times> database" where
  "stage_load st ps calls db df_final =
     (case load_stage st df_final db of
        (Inl e, db') \<Rightarrow>
          (finished st (degraded ps ''load'' (''FAILED - '' @ str_exc e)),
           calls @ [Load_to_duckdb], db')
      | (Inr success, db') \<Rightarrow>
          (if \<not> success
           then (finished st (degraded ps ''load'' ''FAILED''), calls @ [Load_to_duckdb], db')
           else (finished st (recorded ps ''load''
                   (''SUCCESS - '' @ show_nat (len df_final) @ '' records loaded'')),
                 calls @ [Load_to_duckdb], db')))"

text \<open>Step 3, lines 79--96.\<close>

definition stage_transform ::
  "stages \<Rightarrow> pipeline_status \<Rightarrow> call list \<Rightarrow> database \<Rightarrow> table
     \<Rightarrow> pipeline_status \<times> call list \<times> database" where
  "stage_transform st ps calls db df_clean =
     (case transform_stage st df_clean of
        Inl e \<Rightarrow>
          (failed ps ''transform'' (''FAILED - '' @ str_exc e),
           calls @ [Add_sentiment_analysis], db)
      | Inr df_final \<Rightarrow>
          (if df_empty df_final
           then (failed ps ''transform'' ''FAILED'', calls @ [Add_sentiment_analysis], db)
           else
             (case save_transformed_stage st df_final of
                Some e \<Rightarrow>
                  (failed ps ''transform'' (''FAILED - '' @ str_exc e),
                   calls @ [Add_sentiment_analysis, Save_transformed_data], db)
              | None \<Rightarrow>
                  (case column_mean df_final ''sentiment_compound'' of
                     Inl e \<Rightarrow>
                       (failed ps ''transform'' (''FAILED - '' @ str_exc e),
                        calls @ [Add_sentiment_analysis, Save_transformed_data], db)
                   | Inr avg_sentiment \<Rightarrow>
                       stage_load st
                         (recorded ps ''transform''
                            (''SUCCESS - Avg sentiment: '' @ format_3f st avg_sentiment))
                         (calls @ [Add_sentiment_analysis, Save_transformed_data]) db
                         df_final))))"

text \<open>Step 2, lines 56--72.\<close>

definition stage_validate ::
  "stages \<Rightarrow> pipeline_status \<Rightarrow> call list \<Rightarrow> database \<Rightarrow> table
     \<Rightarrow> pipeline_status \<times> call list \<times> database" where
  "stage_validate st ps calls db df_raw =
     (case validate_stage st df_raw of
        Inl e \<Rightarrow>
          (failed ps ''validate'' (''FAILED - '' @ str_exc e), calls @ [Validate_news_data], db)
      | Inr (df_clean, quality_report) \<Rightarrow>
          (if df_empty df_clean
           then (failed ps ''validate'' ''FAILED - No clean data'',
                 calls @ [Validate_news_data], db)
           else
             (case save_report_stage st quality_report of
                Some e \<Rightarrow>
                  (failed ps ''validate'' (''FAILED - '' @ str_exc e),
                   calls @ [Validate_news_data, Save_quality_report], db)
              | None \<Rightarrow>
                  stage_transform st
                    (recorded ps ''validate''
                       (''SUCCESS - '' @ show_nat (len df_clean) @ '' clean records''))
                    (calls @ [Validate_news_data, Save_quality_report]) db df_clean)))"

text \<open>
  \<^verbatim>\<open>run_full_pipeline\<close>: the status of lines 22--26 and step 1, lines 33--49. The result
  is the returned status, the calls made and the database as the run leaves it.
\<close>

definition run_full_pipeline ::
  "stages \<Rightarrow> int \<Rightarrow> int \<Rightarrow> database \<Rightarrow> pipeline_status \<times> call list \<times> database" where
  "run_full_pipeline st days_back n db =
     (let ps = \<lparr>start_time = clock_start st, steps = [], overall_status = ''SUCCESS'',
                 end_time = None\<rparr>
      in case extract_stage st days_back n of
           Inl e \<Rightarrow>
             (failed ps ''extract'' (''FAILED - '' @ str_exc e), [Extract_financial_news], db)
         | Inr df_raw \<Rightarrow>
             (if df_empty df_raw
              then (failed ps ''extract'' ''FAILED - No data'', [Extract_financial_news], db)
              else
                (case save_raw_stage st df_raw of
                   Some e \<Rightarrow>
                     (failed ps ''extract'' (''FAILED - '' @ str_exc e),
                      [Extract_financial_news, Save_raw_data], db)
                 | None \<Rightarrow>
                     stage_validate st
                       (recorded ps ''extract''
                          (''SUCCESS - '' @ show_nat (len df_raw) @ '' articles''))
                       [Extract_financial_news, Save_raw_data] db df_raw)))"

text \<open>
  The stage functions of this repository, in surroundings \<open>w\<close>: the extractor with its
  default keywords, the validator (the runner uses the cleaned frame and the report), the
  transformer, and the loader with its default path, which returns a flag and never
  raises.
\<close>

record world =
  news_api :: extract_env
  write_file :: "string \<Rightarrow> error option"
  parse_utc :: "cell \<Rightarrow> int option"
  report_stamp :: int
  freshness_now :: int
  render_cell :: "cell \<Rightarrow> string"
  polarity :: "string \<Rightarrow> error + scores"
  parse_naive :: "cell \<Rightarrow> int option"
  engine :: load_env
  load_now :: int
  show_3f :: "real option \<Rightarrow> string"
  run_start :: int
  run_end :: int

definition repository_stages :: "world \<Rightarrow> stages" where
  "repository_stages w =
     \<lparr>extract_stage = (\<lambda>days_back n. extract_financial_news (news_api w) default_keywords days_back n),
      save_raw_stage = save_raw_data (write_file w),
      validate_stage =
        (\<lambda>df. case validate_news_data (parse_utc w) (report_stamp w) (freshness_now w) df of
                 Inl e \<Rightarrow> Inl e
               | Inr (df', df_clean, report) \<Rightarrow> Inr (df_clean, report)),
      save_report_stage = save_quality_report (write_file w),
      transform_stage = add_sentiment_analysis (render_cell w) (polarity w) (parse_naive w),
      save_transformed_stage = save_transformed_data (write_file w),
      load_stage =
        (\<lambda>df db. case load_to_duckdb (engine w) (load_now w) df default_db_path db of
                    (success, db') \<Rightarrow> (Inr success, db')),
      format_3f = show_3f w,
      clock_start = run_start w,
      clock_end = run_end w\<rparr>"

section \<open>Concrete inputs\<close>

subsection \<open>Raw articles\<close>

text \<open>
  Two articles as a CSV file or the news API gives them, with the publication time as
  text, and a stand-in for the date parser that reads the two time texts. The second
  article has a title of five characters.
\<close>

definition demo_parse :: "cell \<Rightarrow> int option" where
  "demo_parse v =
     (if v = Str ''2024-01-02T00:00:00Z'' then Some 1704153600
      else if v = Str ''2024-01-03T00:00:00Z'' then Some 1704240000
      else None)"

definition no_parse :: "cell \<Rightarrow> int option" where
  "no_parse v = None"

definition article_a :: row where
  "article_a = [''title'' \<mapsto> Str ''Stocks soar to record highs'',
                ''description'' \<mapsto> Str ''Markets rallied today on strong earnings'',
                ''publishedAt'' \<mapsto> Str ''2024-01-02T00:00:00Z'']"

definition article_b :: row where
  "article_b = [''title'' \<mapsto> Str ''Short'',
                ''description'' \<mapsto> Str ''Bond yields fell as investors sought safety'',
                ''publishedAt'' \<mapsto> Str ''2024-01-03T00:00:00Z'']"

definition raw_columns :: "string list" where
  "raw_columns = [''title'', ''description'', ''publishedAt'']"

definition raw_with_duplicate :: table where
  "raw_with_duplicate = \<lparr>columns = raw_columns, rows = [article_a, article_a, article_b]\<rparr>"

definition raw_distinct :: table where
  "raw_distinct = \<lparr>columns = raw_columns, rows = [article_a, article_b]\<rparr>"

text \<open>A frame with an index of one entry and no column, \<^verbatim>\<open>pd.DataFrame(index=[0])\<close>.\<close>

definition columnless :: table where
  "columnless = \<lparr>columns = [], rows = [Map.empty]\<rparr>"

text \<open>The results of the validator on these frames.\<close>

definition report_with_duplicate :: quality_report where
  "report_with_duplicate =
     \<lparr>status = ''WARNING'', reason = Some ''High removal rate'', timestamp = Some 0,
      initial_records = Some 3,
      checks = Some \<lparr>missing_values = [(''title'', 0), (''description'', 0), (''url'', 3),
                                         (''publishedAt'', 0)],
                      duplicates = 1, freshness = None,
                      content = \<lparr>short_titles = 1, short_descriptions = 0\<rparr>\<rparr>,
      final_records = Some 1, removed_records = Some 2,
      removal_percentage = Some (200 / 3)\<rparr>"

definition clean_with_duplicate :: table where
  "clean_with_duplicate = \<lparr>columns = raw_columns, rows = [article_a]\<rparr>"

definition parsed_distinct :: table where
  "parsed_distinct =
     \<lparr>columns = raw_columns,
      rows = [article_a(''publishedAt'' \<mapsto> Time 1704153600),
              article_b(''publishedAt'' \<mapsto> Time 1704240000)]\<rparr>"

definition checks_distinct :: checks where
  "checks_distinct =
     \<lparr>missing_values = [(''title'', 0), (''description'', 0), (''url'', 2), (''publishedAt'', 0)],
      duplicates = 0,
      freshness = Some \<lparr>oldest = 1704153600, newest = 1704240000, span_days = 2\<rparr>,
      content = \<lparr>short_titles = 1, short_descriptions = 0\<rparr>\<rparr>"

subsection \<open>An answer of the news API\<close>

text \<open>
  An envelope with one article, and surroundings in which the HTTP client gives a fixed
  outcome whatever the request.
\<close>

definition demo_article :: json where
  "demo_article =
     JObj [(''source'', JObj [(''id'', JNull), (''name'', JStr ''Reuters'')]),
           (''title'', JStr ''Stocks soar to record highs''),
           (''description'', JStr ''Markets rallied today on strong earnings''),
           (''url'', JStr ''https://example.org/a''),
           (''publishedAt'', JStr ''2024-01-02T00:00:00Z'')]"

definition demo_envelope :: json where
  "demo_envelope = JObj [(''status'', JStr ''ok''), (''totalResults'', JInt 1),
                         (''articles'', JArr [demo_article])]"

definition demo_env :: "error + response \<Rightarrow> extract_env" where
  "demo_env outcome =
     \<lparr>requests_get = (\<lambda>req. outcome),
      frame_of = (\<lambda>data. Inl (ValueError ''DataFrame constructor not properly called'')),
      parse_published = demo_parse,
      env_api_key = Some ''k'',
      now_request = 1704326400,
      now_extracted = 1704326401\<rparr>"

definition demo_extracted_row :: row where
  "demo_extracted_row =
     [''source'' \<mapsto> Nested (JObj [(''id'', JNull), (''name'', JStr ''Reuters'')]),
      ''title'' \<mapsto> Str ''Stocks soar to record highs'',
      ''description'' \<mapsto> Str ''Markets rallied today on strong earnings'',
      ''url'' \<mapsto> Str ''https://example.org/a'',
      ''source_name'' \<mapsto> Str ''Reuters'',
      ''publishedAt'' \<mapsto> Time 1704153600,
      ''extracted_at'' \<mapsto> Time 1704326401]"

definition demo_extracted :: table where
  "demo_extracted =
     \<lparr>columns = [''source'', ''title'', ''description'', ''url'', ''publishedAt'',
                 ''source_name'', ''extracted_at''],
      rows = [demo_extracted_row]\<rparr>"

text \<open>
  Three envelopes that are not of the interface's shape: the articles are a text; the one
  article has no source; the articles are an object of two arrays instead of an array of
  objects.
\<close>

definition text_envelope :: json where
  "text_envelope = JObj [(''status'', JStr ''ok''), (''articles'', JStr ''oops'')]"

definition sourceless_envelope :: json where
  "sourceless_envelope =
     JObj [(''status'', JStr ''ok''),
           (''articles'', JArr [JObj [(''title'', JStr ''Stocks soar to record highs''),
                                     (''publishedAt'', JStr ''2024-01-02T00:00:00Z'')]])]"

definition columnar_envelope :: json where
  "columnar_envelope =
     JObj [(''status'', JStr ''ok''),
           (''articles'', JObj [(''source'', JArr [JObj [(''name'', JStr ''Reuters'')]]),
                                (''publishedAt'', JArr [JStr ''2024-01-02T00:00:00Z''])])]"

definition columnar_extracted :: table where
  "columnar_extracted =
     \<lparr>columns = [''source'', ''publishedAt'', ''source_name'', ''extracted_at''],
      rows = [[''source'' \<mapsto> Nested (JObj [(''name'', JStr ''Reuters'')]),
               ''source_name'' \<mapsto> Str ''Reuters'',
               ''publishedAt'' \<mapsto> Time 1704153600,
               ''extracted_at'' \<mapsto> Time 1704326401]]\<rparr>"

subsection \<open>A scored article\<close>

text \<open>
  One article, scored by a stand-in for the external scorer that returns a compound score
  of \<open>0.6\<close> for a text of more than ten characters.
\<close>

definition demo_scorer :: "string \<Rightarrow> error + scores" where
  "demo_scorer s =
     Inr \<lparr>compound = (if length s > 10 then 0.6 else - 0.3), pos = 0.5, neg = 0, neu = 0.5\<rparr>"

definition demo_row :: row where
  "demo_row = [''title'' \<mapsto> Str ''Stocks soar to record highs'',
               ''description'' \<mapsto> Str ''Markets rallied today on strong earnings'']"

definition demo_table :: table where
  "demo_table = \<lparr>columns = [''title'', ''description''], rows = [demo_row]\<rparr>"

definition demo_scored_row :: row where
  "demo_scored_row =
     demo_row(''sentiment_compound'' \<mapsto> Flt 0.6, ''sentiment_positive'' \<mapsto> Flt 0.5,
       ''sentiment_negative'' \<mapsto> Flt 0, ''sentiment_neutral'' \<mapsto> Flt 0.5,
       ''sentiment_label'' \<mapsto> Str ''positive'')"

definition demo_scored :: table where
  "demo_scored =
     \<lparr>columns = [''title'', ''description'', ''sentiment_compound'', ''sentiment_positive'',
                 ''sentiment_negative'', ''sentiment_neutral'', ''sentiment_label''],
      rows = [demo_scored_row]\<rparr>"

subsection \<open>Enriched articles\<close>




definition plain_engine :: load_env where
  "plain_engine = \<lparr>connect = (\<lambda>p. None), parse_date = no_parse, cast = (\<lambda>c v. Some v)\<rparr>"

definition no_database :: database where
  "no_database = Map.empty"


subsection \<open>Surroundings of a run\<close>

text \<open>
  Surroundings in which every file can be written, the HTTP client gives a fixed outcome
  and the database engine is a given one; an engine that cannot open the database file;
  and the frames of a run on the one article of the envelope above.
\<close>

definition demo_world :: "error + response \<Rightarrow> load_env \<Rightarrow> world" where
  "demo_world outcome eng =
     \<lparr>news_api = demo_env outcome,
      write_file = (\<lambda>p. None),
      parse_utc = demo_parse,
      report_stamp = 1704326402,
      freshness_now = 1704326403,
      render_cell = (\<lambda>v. []),
      polarity = demo_scorer,
      parse_naive = demo_parse,
      engine = eng,
      load_now = 1704326404,
      show_3f = (\<lambda>x. ''0.600''),
      run_start = 1704326400,
      run_end = 1704326405\<rparr>"

definition locked_engine :: load_env where
  "locked_engine =
     \<lparr>connect = (\<lambda>p. Some (DatabaseError ''IO Error: could not set lock on file'')),
      parse_date = no_parse, cast = (\<lambda>c v. Some v)\<rparr>"

definition ok_response :: response where
  "ok_response = \<lparr>status_code = 200, json_body = Some demo_envelope\<rparr>"

definition demo_report :: quality_report where
  "demo_report =
     \<lparr>status = ''PASSED'', reason = None, timestamp = Some 1704326402,
      initial_records = Some 1,
      checks = Some \<lparr>missing_values = [(''title'', 0), (''description'', 0), (''url'', 0),
                                         (''publishedAt'', 0)],
                      duplicates = 0,
                      freshness = Some \<lparr>oldest = 1704153600, newest = 1704153600, span_days = 2\<rparr>,
                      content = \<lparr>short_titles = 0, short_descriptions = 0\<rparr>\<rparr>,
      final_records = Some 1, removed_records = Some 0, removal_percentage = Some 0\<rparr>"

definition demo_final_row :: row where
  "demo_final_row =
     demo_extracted_row
       (''sentiment_compound'' \<mapsto> Flt 0.6, ''sentiment_positive'' \<mapsto> Flt 0.5,
        ''sentiment_negative'' \<mapsto> Flt 0, ''sentiment_neutral'' \<mapsto> Flt 0.5,
        ''sentiment_label'' \<mapsto> Str ''positive'', ''publishedAt'' \<mapsto> Time 1704153600,
        ''date'' \<mapsto> Date 19724, ''hour'' \<mapsto> Num 0, ''day_of_week'' \<mapsto> Str ''Tuesday'')"

definition demo_final :: table where
  "demo_final =
     \<lparr>columns = [''source'', ''title'', ''description'', ''url'', ''publishedAt'',
                 ''source_name'', ''extracted_at'', ''sentiment_compound'', ''sentiment_positive'',
                 ''sentiment_negative'', ''sentiment_neutral'', ''sentiment_label'', ''date'',
                 ''hour'', ''day_of_week''],
      rows = [demo_final_row]\<rparr>"

definition all_calls :: "call list" where
  "all_calls = [Extract_financial_news, Save_raw_data, Validate_news_data, Save_quality_report,
                Add_sentiment_analysis, Save_transformed_data, Load_to_duckdb]"

section \<open>Properties of the frame operations\<close>

lemma val_upd: "val (r(c \<mapsto> v)) c' = (if c' = c then v else val r c')"
  by (simp add: val_def)

section \<open>Properties of the extractor\<close>

lemma extract_total: "\<exists>df. extract_financial_news env keywords days_back n = Inr df"
  by (simp add: extract_financial_news_def split: sum.splits)

lemma extract_demo:
  assumes "status_code resp < 400 \<or> 600 \<le> status_code resp" "json_body resp = Some demo_envelope"
  shows "extract_financial_news (demo_env (Inr resp)) default_keywords 7 50 = Inr demo_extracted"
proof -
  have rs: "raise_for_status resp = None"
    using assms(1) by (auto simp: raise_for_status_def)
  have fr: "DataFrame (demo_env (Inr resp)) (JArr [demo_article]) =
      Inr \<lparr>columns = [''source'', ''title'', ''description'', ''url'', ''publishedAt''],
           rows = [record_row [(''source'', JObj [(''id'', JNull), (''name'', JStr ''Reuters'')]),
           (''title'', JStr ''Stocks soar to record highs''),
           (''description'', JStr ''Markets rallied today on strong earnings''),
           (''url'', JStr ''https://example.org/a''),
           (''publishedAt'', JStr ''2024-01-02T00:00:00Z'')]]\<rparr>"
    by (simp add: DataFrame_def demo_article_def from_records_def first_seen_def)
  have row: "record_row [(''source'', JObj [(''id'', JNull), (''name'', JStr ''Reuters'')]),
           (''title'', JStr ''Stocks soar to record highs''),
           (''description'', JStr ''Markets rallied today on strong earnings''),
           (''url'', JStr ''https://example.org/a''),
           (''publishedAt'', JStr ''2024-01-02T00:00:00Z'')]
     = [''source'' \<mapsto> Nested (JObj [(''id'', JNull), (''name'', JStr ''Reuters'')]),
      ''title'' \<mapsto> Str ''Stocks soar to record highs'',
      ''description'' \<mapsto> Str ''Markets rallied today on strong earnings'',
      ''url'' \<mapsto> Str ''https://example.org/a'',
      ''publishedAt'' \<mapsto> Str ''2024-01-02T00:00:00Z'']"
    by (rule ext) (simp add: record_row_def)
  have bc: "basic_cleaning (demo_env (Inr resp))
      \<lparr>columns = [''source'', ''title'', ''description'', ''url'', ''publishedAt''],
       rows = [[''source'' \<mapsto> Nested (JObj [(''id'', JNull), (''name'', JStr ''Reuters'')]),
      ''title'' \<mapsto> Str ''Stocks soar to record highs'',
      ''description'' \<mapsto> Str ''Markets rallied today on strong earnings'',
      ''url'' \<mapsto> Str ''https://example.org/a'',
      ''publishedAt'' \<mapsto> Str ''2024-01-02T00:00:00Z'']]\<rparr> = Inr demo_extracted"
    by (simp add: basic_cleaning_def has_column_def assign_def Let_def val_def source_name_def
        demo_env_def to_datetime_def demo_parse_def demo_extracted_def demo_extracted_row_def)
  have get: "requests_get (demo_env (Inr resp)) req = Inr resp" for req
    by (simp add: demo_env_def)
  show ?thesis
    by (simp add: extract_financial_news_def fetch_def get rs assms(2) demo_envelope_def
        json_item_def fr row bc df_empty_def)
qed

lemma to_datetime_column_fails:
  assumes "\<exists>r \<in> set rs. case to_datetime parse (val r c) of Inl e \<Rightarrow> True | Inr v \<Rightarrow> False"
  shows "\<exists>e. to_datetime_column parse c rs = Inl e"
  using assms by (induction rs) (auto split: sum.splits)

lemma basic_cleaning_fails:
  assumes "\<not> has_column df ''source'' \<or> \<not> has_column df ''publishedAt'' \<or> unparsed env df"
  shows "\<exists>e. basic_cleaning env df = Inl e"
proof (cases "has_column df ''source'' \<and> has_column df ''publishedAt''")
  case False
  then show ?thesis
    by (auto simp: basic_cleaning_def Let_def has_column_def assign_def)
next
  case True
  with assms have "unparsed env df" by simp
  then have "\<exists>r \<in> set (rows (assign ''source_name'' (\<lambda>r. source_name (val r ''source'')) df)).
          case to_datetime (parse_published env) (val r ''publishedAt'') of
            Inl e \<Rightarrow> True | Inr v \<Rightarrow> False"
    by (auto simp: unparsed_def assign_def val_upd)
  from to_datetime_column_fails[OF this] show ?thesis
    by (auto simp: basic_cleaning_def Let_def)
qed

lemma no_article_frame_empty:
  assumes "no_article_frame env a"
  shows "(case DataFrame env a of
            Inl e \<Rightarrow> Inl e
          | Inr df \<Rightarrow> if \<not> df_empty df then basic_cleaning env df else Inr DataFrame_empty)
         \<in> {Inr DataFrame_empty} \<union> range Inl"
proof (cases "DataFrame env a")
  case (Inl e)
  then show ?thesis by simp
next
  case (Inr df)
  show ?thesis
  proof (cases "df_empty df")
    case True
    with Inr show ?thesis by simp
  next
    case False
    with assms Inr have "\<not> has_column df ''source'' \<or> \<not> has_column df ''publishedAt'' \<or> unparsed env df"
      by (simp add: no_article_frame_def)
    from basic_cleaning_fails[OF this] Inr False show ?thesis by auto
  qed
qed

text \<open>
  Claim C6, as amended. When the request fails, when the response has a status code from
  400 to 599, when the API's own status is not \<open>ok\<close>, or when the envelope is
  malformed (the body is not JSON, is not an object with a status, or says \<open>ok\<close> and
  has no articles or articles that give no frame of articles), the extractor returns the
  empty frame and raises nothing.
\<close>

theorem extract_soft_failure:
  assumes "request_failed (requests_get env (build_request env keywords days_back n))
         \<or> error_status (requests_get env (build_request env keywords days_back n))
         \<or> api_status_not_ok (requests_get env (build_request env keywords days_back n))
         \<or> malformed_envelope env (requests_get env (build_request env keywords days_back n))"
  shows "extract_financial_news env keywords days_back n = Inr DataFrame_empty"
proof (cases "requests_get env (build_request env keywords days_back n)")
  case (Inl e)
  then show ?thesis by (simp add: extract_financial_news_def fetch_def)
next
  case (Inr resp)
  show ?thesis
  proof (cases "raise_for_status resp")
    case (Some e)
    with Inr show ?thesis by (simp add: extract_financial_news_def fetch_def)
  next
    case None
    then have "\<not> (400 \<le> status_code resp \<and> status_code resp < 600)"
      by (auto simp: raise_for_status_def split: if_splits)
    with assms Inr have bad: "api_status_not_ok (Inr resp) \<or> malformed_envelope env (Inr resp)"
      by (simp add: request_failed_def error_status_def)
    show ?thesis
    proof (cases "json_body resp")
      case no_body: None
      with Inr \<open>raise_for_status resp = None\<close> show ?thesis
        by (simp add: extract_financial_news_def fetch_def)
    next
      case (Some data)
      show ?thesis
      proof (cases "json_item data ''status''")
        case (Inl e)
        with Inr None Some show ?thesis by (simp add: extract_financial_news_def fetch_def)
      next
        case st: (Inr st)
        show ?thesis
        proof (cases "st = JStr ''ok''")
          case False
          with Inr None Some st show ?thesis by (simp add: extract_financial_news_def fetch_def)
        next
          case True
          show ?thesis
          proof (cases "json_item data ''articles''")
            case (Inl e)
            with Inr None Some st True show ?thesis
              by (simp add: extract_financial_news_def fetch_def)
          next
            case a: (Inr a)
            from bad Some st True a have "no_article_frame env a"
              by (simp add: api_status_not_ok_def malformed_envelope_def)
            from no_article_frame_empty[OF this] Inr None Some st True a show ?thesis
              by (auto simp: extract_financial_news_def fetch_def)
          qed
        qed
      qed
    qed
  qed
qed

lemma get_demo: "requests_get (demo_env outcome) req = outcome"
  by (simp add: demo_env_def)

lemma sourceless_malformed:
  "malformed_envelope (demo_env x) (Inr \<lparr>status_code = 200, json_body = Some sourceless_envelope\<rparr>)"
  by (simp add: malformed_envelope_def sourceless_envelope_def json_item_def no_article_frame_def
      DataFrame_def from_records_def first_seen_def df_empty_def has_column_def)

lemma text_malformed:
  "malformed_envelope (demo_env x) (Inr \<lparr>status_code = 200, json_body = Some text_envelope\<rparr>)"
  by (simp add: malformed_envelope_def text_envelope_def json_item_def no_article_frame_def
      DataFrame_def)

theorem extract_soft_failure_witness:
  "request_failed (requests_get (demo_env (Inl (RequestException ''timed out'')))
       (build_request (demo_env (Inl (RequestException ''timed out''))) default_keywords 7 50))
   \<and> extract_financial_news (demo_env (Inl (RequestException ''timed out''))) default_keywords 7 50
       = Inr DataFrame_empty
   \<and> malformed_envelope (demo_env (Inr \<lparr>status_code = 200, json_body = Some text_envelope\<rparr>))
       (Inr \<lparr>status_code = 200, json_body = Some text_envelope\<rparr>)
   \<and> extract_financial_news (demo_env (Inr \<lparr>status_code = 200, json_body = Some text_envelope\<rparr>))
       default_keywords 7 50 = Inr DataFrame_empty
   \<and> malformed_envelope (demo_env (Inr \<lparr>status_code = 200, json_body = Some sourceless_envelope\<rparr>))
       (Inr \<lparr>status_code = 200, json_body = Some sourceless_envelope\<rparr>)
   \<and> extract_financial_news
        (demo_env (Inr \<lparr>status_code = 200, json_body = Some sourceless_envelope\<rparr>))
        default_keywords 7 50 = Inr DataFrame_empty"
proof -
  have f: "request_failed (requests_get (demo_env (Inl (RequestException ''timed out'')))
       (build_request (demo_env (Inl (RequestException ''timed out''))) default_keywords 7 50))"
    by (simp add: request_failed_def demo_env_def)
  have t: "malformed_envelope (demo_env (Inr \<lparr>status_code = 200, json_body = Some text_envelope\<rparr>))
       (requests_get (demo_env (Inr \<lparr>status_code = 200, json_body = Some text_envelope\<rparr>))
          (build_request (demo_env (Inr \<lparr>status_code = 200, json_body = Some text_envelope\<rparr>))
             default_keywords 7 50))"
    by (simp add: get_demo text_malformed)
  have s: "malformed_envelope
       (demo_env (Inr \<lparr>status_code = 200, json_body = Some sourceless_envelope\<rparr>))
       (requests_get (demo_env (Inr \<lparr>status_code = 200, json_body = Some sourceless_envelope\<rparr>))
          (build_request (demo_env (Inr \<lparr>status_code = 200, json_body = Some sourceless_envelope\<rparr>))
             default_keywords 7 50))"
    by (simp add: get_demo sourceless_malformed)
  from extract_soft_failure[OF disjI1, OF f]
    extract_soft_failure[OF disjI2, OF disjI2, OF disjI2, OF t]
    extract_soft_failure[OF disjI2, OF disjI2, OF disjI2, OF s]
    f text_malformed sourceless_malformed
  show ?thesis by simp
qed

lemma extract_columnar:
  assumes "status_code resp < 400 \<or> 600 \<le> status_code resp"
    and "json_body resp = Some columnar_envelope"
  shows "extract_financial_news (demo_env (Inr resp)) default_keywords 7 50 = Inr columnar_extracted"
proof -
  have rs: "raise_for_status resp = None"
    using assms(1) by (auto simp: raise_for_status_def)
  have items: "object_items [(''source'', JArr [JObj [(''name'', JStr ''Reuters'')]]),
                             (''publishedAt'', JArr [JStr ''2024-01-02T00:00:00Z''])]
             = [(''source'', JArr [JObj [(''name'', JStr ''Reuters'')]]),
                (''publishedAt'', JArr [JStr ''2024-01-02T00:00:00Z''])]"
    by (simp add: object_items_def first_seen_def)
  have fc: "from_columns [(''source'', JArr [JObj [(''name'', JStr ''Reuters'')]]),
                            (''publishedAt'', JArr [JStr ''2024-01-02T00:00:00Z''])] (Suc 0)
      = \<lparr>columns = [''source'', ''publishedAt''],
         rows = [[''source'' \<mapsto> Nested (JObj [(''name'', JStr ''Reuters'')]),
                  ''publishedAt'' \<mapsto> Str ''2024-01-02T00:00:00Z'']]\<rparr>"
    apply (simp add: from_columns_def)
    apply (rule ext)
    apply simp
    done
  have fr: "DataFrame env (JObj [(''source'', JArr [JObj [(''name'', JStr ''Reuters'')]]),
                                 (''publishedAt'', JArr [JStr ''2024-01-02T00:00:00Z''])])
      = Inr \<lparr>columns = [''source'', ''publishedAt''],
             rows = [[''source'' \<mapsto> Nested (JObj [(''name'', JStr ''Reuters'')]),
                      ''publishedAt'' \<mapsto> Str ''2024-01-02T00:00:00Z'']]\<rparr>" for env
    by (simp add: DataFrame_def items fc)
  have bc: "basic_cleaning (demo_env x)
      \<lparr>columns = [''source'', ''publishedAt''],
       rows = [[''source'' \<mapsto> Nested (JObj [(''name'', JStr ''Reuters'')]),
                ''publishedAt'' \<mapsto> Str ''2024-01-02T00:00:00Z'']]\<rparr> = Inr columnar_extracted" for x
    by (simp add: basic_cleaning_def has_column_def assign_def Let_def val_def source_name_def
        demo_env_def to_datetime_def demo_parse_def columnar_extracted_def)
  show ?thesis
    by (simp add: extract_financial_news_def fetch_def get_demo rs assms(2) columnar_envelope_def
        json_item_def fr bc df_empty_def)
qed

text \<open>
  The claim as it was stated covers every response outside 200--299 and every malformed
  envelope. A response with status code 300 and a well-formed envelope is not refused by
  \<^verbatim>\<open>raise_for_status\<close>, and the extractor returns its article. An envelope whose
  articles are an object of two arrays, not an array of objects, gives pandas a frame with
  a source and a publication time column, and the extractor returns its row.
\<close>

theorem extract_status_300_counterexample:
  "non_2xx (requests_get (demo_env (Inr \<lparr>status_code = 300, json_body = Some demo_envelope\<rparr>))
       (build_request (demo_env (Inr \<lparr>status_code = 300, json_body = Some demo_envelope\<rparr>))
          default_keywords 7 50))
   \<and> extract_financial_news (demo_env (Inr \<lparr>status_code = 300, json_body = Some demo_envelope\<rparr>))
       default_keywords 7 50 = Inr demo_extracted
   \<and> len demo_extracted = 1
   \<and> demo_extracted \<noteq> DataFrame_empty
   \<and> \<not> envelope_shape columnar_envelope
   \<and> extract_financial_news
        (demo_env (Inr \<lparr>status_code = 200, json_body = Some columnar_envelope\<rparr>))
        default_keywords 7 50 = Inr columnar_extracted
   \<and> len columnar_extracted = 1
   \<and> columnar_extracted \<noteq> DataFrame_empty"
proof -
  have "extract_financial_news (demo_env (Inr \<lparr>status_code = 300, json_body = Some demo_envelope\<rparr>))
       default_keywords 7 50 = Inr demo_extracted"
    by (rule extract_demo) simp_all
  moreover have "\<not> envelope_shape columnar_envelope"
    by (simp add: envelope_shape_def columnar_envelope_def json_item_def)
  moreover have "extract_financial_news
        (demo_env (Inr \<lparr>status_code = 200, json_body = Some columnar_envelope\<rparr>))
        default_keywords 7 50 = Inr columnar_extracted"
    by (rule extract_columnar) simp_all
  ultimately show ?thesis
    by (simp add: non_2xx_def demo_env_def len_def demo_extracted_def DataFrame_empty_def
        columnar_extracted_def)
qed

section \<open>Properties of the validator\<close>

lemma subset_check_None: "subset_check cols df = None \<longleftrightarrow> (\<forall>c \<in> set cols. has_column df c)"
proof -
  have "subset_check cols df = None \<longleftrightarrow> filter (\<lambda>c. \<not> has_column df c) cols = []"
    by (simp add: subset_check_def split: list.splits)
  then show ?thesis by (simp add: filter_empty_conv)
qed

lemma drop_seen_subset: "set (drop_seen key seen rs) \<subseteq> set rs"
  by (induction rs arbitrary: seen) auto

lemma drop_seen_keys: "x \<in> set (drop_seen key seen rs) \<Longrightarrow> key x \<notin> set seen"
  by (induction rs arbitrary: seen) (force split: if_splits)+

lemma drop_seen_fresh: "x \<in> set (drop_seen key (k # seen) rs) \<Longrightarrow> key x \<noteq> k"
  using drop_seen_keys[of x key "k # seen" rs] by auto

lemma drop_seen_distinct: "distinct (map key (drop_seen key seen rs))"
  by (induction rs arbitrary: seen) (auto dest: drop_seen_fresh)

lemma drop_seen_length: "length (drop_seen key seen rs) \<le> length rs"
  by (induction rs arbitrary: seen) (auto simp: le_SucI)

lemma cleaning_Inr:
  assumes "cleaning df = Inr clean"
  shows "has_column df ''title'' \<and> has_column df ''description'' \<and> has_column df ''publishedAt''
       \<and> clean = df\<lparr>rows := clean_rows (rows df)\<rparr>"
  using assms
  by (auto simp: cleaning_def dropna_def drop_duplicates_def subset_check_None keep_rows_def
      has_column_def clean_rows_def Let_def split: option.splits sum.splits if_splits)

lemma cleaning_total:
  assumes "has_column df ''title''" "has_column df ''description''" "has_column df ''publishedAt''"
  shows "cleaning df = Inr (df\<lparr>rows := clean_rows (rows df)\<rparr>)"
proof -
  have a: "subset_check [''title'', ''description''] df = None"
    using assms by (simp add: subset_check_None)
  have b: "subset_check [''title'', ''publishedAt''] (df\<lparr>rows := rs\<rparr>) = None" for rs
    using assms by (simp add: subset_check_None has_column_def)
  show ?thesis using assms
    by (simp add: cleaning_def dropna_def drop_duplicates_def a b keep_rows_def has_column_def
        clean_rows_def Let_def)
qed

lemma clean_rows_props:
  assumes "r \<in> set (clean_rows rs)"
  shows "\<not> isnull (val r ''title'') \<and> \<not> isnull (val r ''description'')
       \<and> len_ge (val r ''title'') 10 \<and> len_ge (val r ''description'') 20 \<and> r \<in> set rs"
  using assms by (auto simp: clean_rows_def dest!: subsetD[OF drop_seen_subset])

lemma clean_rows_distinct: "distinct (map dup_key (clean_rows rs))"
  by (simp add: clean_rows_def distinct_map_filter drop_seen_distinct)

lemma clean_rows_length: "length (clean_rows rs) \<le> length rs"
  unfolding clean_rows_def
  by (meson drop_seen_length length_filter_le le_trans)

lemma validate_nonempty:
  assumes "\<not> df_empty df" "validate_news_data parse stamp now df = Inr (df', clean, rep)"
  shows "\<exists>cs. run_checks parse now df = Inr (df', cs) \<and> cleaning df' = Inr clean
            \<and> rep = final_report stamp (len df) cs (len clean)"
  using assms by (auto simp: validate_news_data_def split: sum.splits)

lemmas demo_defs = raw_with_duplicate_def raw_distinct_def raw_columns_def article_a_def
  article_b_def demo_parse_def

lemma run_checks_with_duplicate:
  "run_checks demo_parse 1704326400 raw_with_duplicate =
     Inr (raw_with_duplicate,
          \<lparr>missing_values = [(''title'', 0), (''description'', 0), (''url'', 3), (''publishedAt'', 0)],
           duplicates = 1, freshness = None,
           content = \<lparr>short_titles = 1, short_descriptions = 0\<rparr>\<rparr>)"
  by (simp add: run_checks_def duplicated_count_def subset_check_def has_column_def len_def
      dup_key_def val_def check_missing_def critical_fields_def missing_count_def count_rows_def
      isnull_def check_content_def len_lt_def str_len_def demo_defs)

lemma cleaning_with_duplicate: "cleaning raw_with_duplicate = Inr clean_with_duplicate"
  by (simp add: cleaning_def dropna_def drop_duplicates_def subset_check_def has_column_def
      dup_key_def val_def isnull_def keep_rows_def len_ge_def str_len_def demo_defs
      clean_with_duplicate_def)

lemma validate_with_duplicate:
  "validate_news_data demo_parse 0 1704326400 raw_with_duplicate =
     Inr (raw_with_duplicate, clean_with_duplicate, report_with_duplicate)"
  by (simp add: validate_news_data_def run_checks_with_duplicate cleaning_with_duplicate
      final_report_def percentage_def report_with_duplicate_def)
     (simp add: df_empty_def len_def raw_with_duplicate_def clean_with_duplicate_def raw_columns_def)

lemma run_checks_distinct:
  "run_checks demo_parse 1704326400 raw_distinct = Inr (parsed_distinct, checks_distinct)"
  by (simp add: run_checks_def duplicated_count_def subset_check_def has_column_def len_def
      dup_key_def val_def check_missing_def critical_fields_def missing_count_def count_rows_def
      isnull_def check_content_def len_lt_def str_len_def demo_defs check_freshness_def
      to_datetime_def column_times_def time_of_def List.map_filter_def parsed_distinct_def
      checks_distinct_def)

lemma run_checks_Inr:
  assumes "run_checks parse now df = Inr (df', cs)"
  shows "duplicated_count df = Inr (duplicates cs)
       \<and> (if duplicates cs > 0 then df' = df \<and> freshness cs = None
           else check_freshness parse now df = Inr (df', freshness cs))"
  using assms by (auto simp: run_checks_def split: sum.splits if_splits)

lemma duplicated_count_columns:
  "duplicated_count df = Inr n \<Longrightarrow> has_column df ''title'' \<and> has_column df ''publishedAt''"
  by (auto simp: duplicated_count_def subset_check_None split: option.splits)

lemma check_freshness_Some:
  assumes "check_freshness parse now df = Inr (df', f)" "has_column df ''publishedAt''"
  shows "f \<noteq> None \<and> columns df' = columns df"
  using assms by (auto simp: check_freshness_def split: sum.splits list.splits)

lemma run_checks_columns:
  assumes "run_checks parse now df = Inr (df', cs)"
  shows "columns df' = columns df"
proof -
  from run_checks_Inr[OF assms] have d: "duplicated_count df = Inr (duplicates cs)" by simp
  then have "has_column df ''publishedAt''" by (simp add: duplicated_count_columns)
  with run_checks_Inr[OF assms] show ?thesis
    by (auto dest: check_freshness_Some split: if_splits)
qed

text \<open>
  Claim C1, as amended. For every input frame that has at least one column, each row of the
  cleaned frame has a title and a description that are not missing, a title of length at
  least 10 and a description of length at least 20, and the pairs of title and publication
  time of the cleaned frame are pairwise distinct.
\<close>

theorem cleaned_rows_valid:
  assumes cols: "columns df \<noteq> []"
    and run: "validate_news_data parse stamp now df = Inr (df', clean, rep)"
  shows "(\<forall>r \<in> set (rows clean).
            (\<exists>t n. cell_at clean r ''title'' = Some t \<and> \<not> isnull t \<and> str_len t = Some n \<and> n \<ge> 10)
          \<and> (\<exists>d n. cell_at clean r ''description'' = Some d \<and> \<not> isnull d
                    \<and> str_len d = Some n \<and> n \<ge> 20))
       \<and> distinct (map dup_key (rows clean))"
proof (cases "df_empty df")
  case True
  with cols have "rows df = []" by (simp add: df_empty_def)
  moreover from True run have "clean = df" by (auto simp: validate_news_data_def)
  ultimately show ?thesis by simp
next
  case False
  from validate_nonempty[OF False run] obtain cs where cl: "cleaning df' = Inr clean" by blast
  from cleaning_Inr[OF cl] have t: "has_column clean ''title''"
    and d: "has_column clean ''description''"
    and rs: "rows clean = clean_rows (rows df')"
    by (simp_all add: has_column_def)
  have "\<exists>t n. cell_at clean r ''title'' = Some t \<and> \<not> isnull t \<and> str_len t = Some n \<and> n \<ge> 10"
    if "r \<in> set (rows clean)" for r
    using clean_rows_props[of r "rows df'"] that t rs
    by (auto simp: cell_at_def len_ge_def split: option.splits)
  moreover have "\<exists>d n. cell_at clean r ''description'' = Some d \<and> \<not> isnull d
                    \<and> str_len d = Some n \<and> n \<ge> 20"
    if "r \<in> set (rows clean)" for r
    using clean_rows_props[of r "rows df'"] that d rs
    by (auto simp: cell_at_def len_ge_def split: option.splits)
  moreover have "distinct (map dup_key (rows clean))"
    by (simp add: rs clean_rows_distinct)
  ultimately show ?thesis by blast
qed

theorem cleaned_rows_valid_witness:
  "columns raw_with_duplicate \<noteq> []
   \<and> validate_news_data demo_parse 0 1704326400 raw_with_duplicate =
       Inr (raw_with_duplicate, clean_with_duplicate, report_with_duplicate)
   \<and> rows clean_with_duplicate = [article_a]
   \<and> cell_at clean_with_duplicate article_a ''title'' = Some (Str ''Stocks soar to record highs'')
   \<and> str_len (Str ''Stocks soar to record highs'') = Some 27
   \<and> distinct (map dup_key (rows clean_with_duplicate))"
proof -
  have cols: "columns raw_with_duplicate \<noteq> []"
    by (simp add: raw_with_duplicate_def raw_columns_def)
  from cleaned_rows_valid[OF cols validate_with_duplicate]
  have "distinct (map dup_key (rows clean_with_duplicate))" by blast
  then show ?thesis
    using cols validate_with_duplicate
    by (simp add: clean_with_duplicate_def cell_at_def has_column_def raw_columns_def val_def
        article_a_def str_len_def)
qed

text \<open>
  The claim as it was stated, for every input frame, fails on a frame with an index and no
  column: the frame is empty to the validator, which returns it as it is, and its one row
  has no title.
\<close>

theorem cleaned_rows_columnless_counterexample:
  "validate_news_data no_parse 0 0 columnless = Inr (columnless, columnless, empty_report)
   \<and> rows columnless = [Map.empty]
   \<and> cell_at columnless Map.empty ''title'' = None"
  by (simp add: validate_news_data_def df_empty_def columnless_def cell_at_def has_column_def)

text \<open>
  Claim C2. For every input frame that is not empty, the report's status is \<open>FAILED\<close>
  exactly when the cleaned frame has no rows; otherwise it is \<open>WARNING\<close> exactly when
  the removal percentage exceeds 50; otherwise it is \<open>PASSED\<close>. The removal percentage
  is (initial - final) / initial * 100.
\<close>

theorem report_status:
  assumes nonempty: "\<not> df_empty df"
    and run: "validate_news_data parse stamp now df = Inr (df', clean, rep)"
  shows "removal_percentage rep = Some ((real (len df) - real (len clean)) / real (len df) * 100)
       \<and> (status rep = ''FAILED'' \<longleftrightarrow> len clean = 0)
       \<and> (len clean \<noteq> 0 \<longrightarrow>
            (status rep = ''WARNING'' \<longleftrightarrow>
               (real (len df) - real (len clean)) / real (len df) * 100 > 50))
       \<and> (len clean \<noteq> 0 \<and> \<not> (real (len df) - real (len clean)) / real (len df) * 100 > 50 \<longrightarrow>
            status rep = ''PASSED'')"
proof -
  from validate_nonempty[OF nonempty run] obtain cs where
    rep: "rep = final_report stamp (len df) cs (len clean)" by blast
  from nonempty have pos: "len df > 0" by (simp add: df_empty_def len_def)
  have pct: "percentage (int (len df) - int (len clean)) (len df)
               = (real (len df) - real (len clean)) / real (len df) * 100"
    using pos by (simp add: percentage_def)
  show ?thesis
    unfolding rep final_report_def Let_def pct by simp
qed

theorem report_status_witness:
  "\<not> df_empty raw_with_duplicate
   \<and> validate_news_data demo_parse 0 1704326400 raw_with_duplicate =
       Inr (raw_with_duplicate, clean_with_duplicate, report_with_duplicate)
   \<and> len raw_with_duplicate = 3 \<and> len clean_with_duplicate = 1
   \<and> removal_percentage report_with_duplicate = Some (200 / 3)
   \<and> status report_with_duplicate = ''WARNING''"
proof -
  have nonempty: "\<not> df_empty raw_with_duplicate"
    by (simp add: df_empty_def raw_with_duplicate_def raw_columns_def)
  have lens: "len raw_with_duplicate = 3 \<and> len clean_with_duplicate = 1"
    by (simp add: len_def raw_with_duplicate_def clean_with_duplicate_def)
  from report_status[OF nonempty validate_with_duplicate] lens
  have "removal_percentage report_with_duplicate = Some (200 / 3)
        \<and> status report_with_duplicate = ''WARNING''"
    by simp
  with nonempty validate_with_duplicate lens show ?thesis by simp
qed

text \<open>
  Claim C8. The report carries a freshness entry exactly when the frame is not empty, the
  duplicate count of check 2 is zero and the frame has a publication time column, so the
  entry may be absent. Whenever the checks ran, the cleaning is applied to the frame they
  leave, whatever the duplicate count.
\<close>

theorem freshness_gating:
  assumes run: "validate_news_data parse stamp now df = Inr (df', clean, rep)"
  shows "((\<exists>cs f. checks rep = Some cs \<and> freshness cs = Some f) \<longleftrightarrow>
            \<not> df_empty df \<and> duplicated_count df = Inr 0 \<and> has_column df ''publishedAt'')
       \<and> (\<not> df_empty df \<longrightarrow>
            cleaning df' = Inr clean \<and> rows clean = clean_rows (rows df')
            \<and> (\<exists>cs. checks rep = Some cs \<and> duplicated_count df = Inr (duplicates cs)))"
proof (cases "df_empty df")
  case True
  with run have "rep = empty_report" by (auto simp: validate_news_data_def)
  with True show ?thesis by (simp add: empty_report_def)
next
  case False
  from validate_nonempty[OF False run] obtain cs where
    chk: "run_checks parse now df = Inr (df', cs)" and cl: "cleaning df' = Inr clean"
    and rep: "rep = final_report stamp (len df) cs (len clean)" by blast
  have cs: "checks rep = Some cs" by (simp add: rep final_report_def Let_def)
  from run_checks_Inr[OF chk] have d: "duplicated_count df = Inr (duplicates cs)" by simp
  then have col: "has_column df ''publishedAt''" by (simp add: duplicated_count_columns)
  have fresh: "freshness cs \<noteq> None \<longleftrightarrow> duplicates cs = 0"
    using run_checks_Inr[OF chk] col by (auto dest: check_freshness_Some split: if_splits)
  have rs: "rows clean = clean_rows (rows df')"
    using cleaning_Inr[OF cl] by simp
  show ?thesis using False cs d col fresh cl rs by auto
qed

theorem freshness_gating_witness:
  "validate_news_data demo_parse 0 1704326400 raw_with_duplicate =
       Inr (raw_with_duplicate, clean_with_duplicate, report_with_duplicate)
   \<and> \<not> df_empty raw_with_duplicate
   \<and> duplicated_count raw_with_duplicate = Inr 1
   \<and> has_column raw_with_duplicate ''publishedAt''
   \<and> map_option freshness (checks report_with_duplicate) = Some None
   \<and> cleaning raw_with_duplicate = Inr clean_with_duplicate
   \<and> rows clean_with_duplicate = [article_a]"
proof -
  have nonempty: "\<not> df_empty raw_with_duplicate"
    by (simp add: df_empty_def raw_with_duplicate_def raw_columns_def)
  from freshness_gating[OF validate_with_duplicate] nonempty
  have "cleaning raw_with_duplicate = Inr clean_with_duplicate" by blast
  moreover have "duplicated_count raw_with_duplicate = Inr 1"
    by (simp add: duplicated_count_def subset_check_def has_column_def len_def dup_key_def
        val_def demo_defs)
  moreover have "has_column raw_with_duplicate ''publishedAt''"
    by (simp add: has_column_def raw_with_duplicate_def raw_columns_def)
  ultimately show ?thesis
    using nonempty validate_with_duplicate
    by (simp add: report_with_duplicate_def clean_with_duplicate_def)
qed

text \<open>
  Claim C10. On an empty frame the validator returns the frame itself and a report that
  holds the status \<open>FAILED\<close> and the reason \<open>Empty dataframe\<close> and no other key; it
  raises nothing.
\<close>

theorem empty_input_report:
  assumes "df_empty df"
  shows "validate_news_data parse stamp now df =
           Inr (df, df,
                \<lparr>status = ''FAILED'', reason = Some ''Empty dataframe'', timestamp = None,
                 initial_records = None, checks = None, final_records = None,
                 removed_records = None, removal_percentage = None\<rparr>)"
  using assms by (simp add: validate_news_data_def empty_report_def)

theorem empty_input_report_witness:
  "df_empty DataFrame_empty
   \<and> validate_news_data demo_parse 0 1704326400 DataFrame_empty =
       Inr (DataFrame_empty, DataFrame_empty,
            \<lparr>status = ''FAILED'', reason = Some ''Empty dataframe'', timestamp = None,
             initial_records = None, checks = None, final_records = None,
             removed_records = None, removal_percentage = None\<rparr>)"
proof -
  have e: "df_empty DataFrame_empty" by (simp add: df_empty_def DataFrame_empty_def)
  from empty_input_report[OF e] e show ?thesis by simp
qed

text \<open>
  Claim C9 says that the checks leave every column of the input as it was, the
  publication time included. On two distinct articles whose publication times are texts,
  check 3 runs and line 67 stores the parsed column in the caller's frame: after the check
  phase the publication times of the input are timestamps.
\<close>

theorem checks_overwrite_published:
  "run_checks demo_parse 1704326400 raw_distinct = Inr (parsed_distinct, checks_distinct)
   \<and> map (\<lambda>r. val r ''publishedAt'') (rows raw_distinct) =
       [Str ''2024-01-02T00:00:00Z'', Str ''2024-01-03T00:00:00Z'']
   \<and> map (\<lambda>r. val r ''publishedAt'') (rows parsed_distinct) =
       [Time 1704153600, Time 1704240000]"
  using run_checks_distinct
  by (simp add: raw_distinct_def parsed_distinct_def val_def article_a_def article_b_def)

text \<open>
  What the check phase does keep: the columns, the number of rows, and in every row every
  cell outside the publication time column.
\<close>

lemma to_datetime_column_frame:
  "to_datetime_column parse c rs = Inr rs' \<Longrightarrow>
   length rs' = length rs \<and> (\<forall>i < length rs. \<forall>c'. c' \<noteq> c \<longrightarrow> (rs' ! i) c' = (rs ! i) c')"
proof (induction rs arbitrary: rs')
  case Nil
  then show ?case by simp
next
  case (Cons r rs)
  then obtain v rs1 where rs1: "to_datetime_column parse c rs = Inr rs1"
    and rs': "rs' = r(c \<mapsto> v) # rs1"
    by (auto split: sum.splits)
  from Cons.IH[OF rs1] show ?case
    unfolding rs' by (auto simp: nth_Cons split: nat.splits)
qed

lemma run_checks_frame:
  assumes "run_checks parse now df = Inr (df', cs)"
  shows "columns df' = columns df \<and> length (rows df') = length (rows df)
       \<and> (\<forall>i < length (rows df). \<forall>c. c \<noteq> ''publishedAt'' \<longrightarrow> (rows df' ! i) c = (rows df ! i) c)"
proof (cases "duplicates cs > 0")
  case True
  with run_checks_Inr[OF assms] show ?thesis by simp
next
  case False
  with run_checks_Inr[OF assms] have f: "check_freshness parse now df = Inr (df', freshness cs)"
    by simp
  show ?thesis
  proof (cases "has_column df ''publishedAt''")
    case True
    with f obtain rs where rs: "to_datetime_column parse ''publishedAt'' (rows df) = Inr rs"
      and df': "df' = df\<lparr>rows := rs\<rparr>"
      by (auto simp: check_freshness_def split: sum.splits list.splits)
    from to_datetime_column_frame[OF rs] show ?thesis by (simp add: df')
  next
    case False
    with f show ?thesis by (simp add: check_freshness_def)
  qed
qed
section \<open>Properties of the transformer\<close>

subsection \<open>The rows of the transformer's output\<close>

lemma apply_scores_rows:
  "apply_scores render ps df rs = Inr rs' \<Longrightarrow> r' \<in> set rs' \<Longrightarrow>
   \<exists>r s. r \<in> set rs \<and> analyze_article render ps df r = Inr s \<and> r' = with_scores r s"
  by (induction rs arbitrary: rs') (fastforce split: sum.splits)+

lemma to_datetime_column_rows:
  "to_datetime_column parse c rs = Inr rs' \<Longrightarrow> r' \<in> set rs' \<Longrightarrow>
   \<exists>r v. r \<in> set rs \<and> to_datetime parse (val r c) = Inr v \<and> r' = r(c \<mapsto> v)"
  by (induction rs arbitrary: rs') (fastforce split: sum.splits)+

lemma assign_rows:
  "r' \<in> set (rows (assign c f df)) \<Longrightarrow> \<exists>r \<in> set (rows df). r' = r(c \<mapsto> f r)"
  by (auto simp: assign_def)

lemma assign_columns: "set (columns (assign c f df)) = insert c (set (columns df))"
  by (auto simp: assign_def)

text \<open>The calendar features touch four columns and no other.\<close>

lemma date_features_rows:
  assumes "date_features parse df = Inr out" and "r' \<in> set (rows out)"
  shows "\<exists>r \<in> set (rows df).
           \<forall>c. c \<notin> {''publishedAt'', ''date'', ''hour'', ''day_of_week''} \<longrightarrow> r' c = r c"
proof (cases "has_column df ''publishedAt''")
  case False
  with assms show ?thesis by (auto simp: date_features_def)
next
  case True
  with assms(1) obtain rs where rs: "to_datetime_column parse ''publishedAt'' (rows df) = Inr rs"
    and out: "out = assign ''day_of_week'' (\<lambda>r. dt_day_name (val r ''publishedAt''))
                   (assign ''hour'' (\<lambda>r. dt_hour (val r ''publishedAt''))
                     (assign ''date'' (\<lambda>r. dt_date (val r ''publishedAt''))
                       (df\<lparr>rows := rs\<rparr>)))"
    by (auto simp: date_features_def split: sum.splits)
  from assms(2) out obtain r3 d h w where r3: "r3 \<in> set rs"
    and r': "r' = r3(''date'' \<mapsto> d, ''hour'' \<mapsto> h, ''day_of_week'' \<mapsto> w)"
    by (auto simp: assign_def)
  from to_datetime_column_rows[OF rs r3] obtain r v where
    r: "r \<in> set (rows df)" and r3_eq: "r3 = r(''publishedAt'' \<mapsto> v)" by blast
  have "\<forall>c. c \<notin> {''publishedAt'', ''date'', ''hour'', ''day_of_week''} \<longrightarrow> r' c = r c"
    unfolding r' r3_eq by simp
  with r show ?thesis by blast
qed

lemma date_features_columns:
  "date_features parse df = Inr out \<Longrightarrow> set (columns df) \<subseteq> set (columns out)"
  by (auto simp: date_features_def assign_columns split: if_splits sum.splits)

lemma val_with_scores_compound: "val (with_scores r s) ''sentiment_compound'' = Flt (compound s)"
  by (simp add: with_scores_def val_def)

lemma demo_scored_run:
  "add_sentiment_analysis (\<lambda>_. []) demo_scorer (\<lambda>_. None) demo_table = Inr demo_scored"
  by (simp add: add_sentiment_analysis_def df_empty_def demo_table_def demo_row_def
      analyze_article_def row_get_str_def cell_at_def has_column_def val_def py_str_def
      demo_scorer_def with_scores_def sentiment_columns_def assign_def label_of_def
      categorize_sentiment_def date_features_def demo_scored_def demo_scored_row_def)

text \<open>
  On a frame that is not empty every row of the output is scored: it carries a compound
  score, and with it a label.
\<close>

lemma scored_rows:
  assumes run: "add_sentiment_analysis render polarity_scores parse df = Inr out"
    and nonempty: "\<not> df_empty df"
    and member: "r \<in> set (rows out)"
  shows "\<exists>c. cell_at out r ''sentiment_compound'' = Some (Flt c)"
proof -
  from nonempty run obtain rs where rs: "apply_scores render polarity_scores df (rows df) = Inr rs"
    and feat: "date_features parse
                (assign ''sentiment_label'' label_of
                  \<lparr>columns = columns df @ filter (\<lambda>c. c \<notin> set (columns df)) sentiment_columns,
                   rows = rs\<rparr>) = Inr out"
    by (auto simp: add_sentiment_analysis_def split: sum.splits if_splits)
  from date_features_rows[OF feat member] obtain r1 where
    r1: "r1 \<in> set (rows (assign ''sentiment_label'' label_of
                  \<lparr>columns = columns df @ filter (\<lambda>c. c \<notin> set (columns df)) sentiment_columns,
                   rows = rs\<rparr>))"
    and same: "\<forall>c. c \<notin> {''publishedAt'', ''date'', ''hour'', ''day_of_week''} \<longrightarrow> r c = r1 c"
    by blast
  from assign_rows[OF r1] obtain r2 where r2: "r2 \<in> set rs"
    and r1_eq: "r1 = r2(''sentiment_label'' \<mapsto> label_of r2)" by auto
  from apply_scores_rows[OF rs r2] obtain r0 s where r2_eq: "r2 = with_scores r0 s" by blast
  have "val r ''sentiment_compound'' = Flt (compound s)"
    using same r1_eq r2_eq by (simp add: val_def with_scores_def)
  moreover have "has_column out ''sentiment_compound''"
    using date_features_columns[OF feat]
    by (cases "''sentiment_compound'' \<in> set (columns df)")
      (auto simp: has_column_def assign_columns sentiment_columns_def)
  ultimately show ?thesis by (simp add: cell_at_def)
qed

text \<open>
  In whatever the transformer returns, a row that carries a compound score carries the
  label that \<^verbatim>\<open>categorize_sentiment\<close> gives for the score.
\<close>

lemma label_of_scored_row:
  assumes run: "add_sentiment_analysis render polarity_scores parse df = Inr out"
    and member: "r \<in> set (rows out)"
    and score: "cell_at out r ''sentiment_compound'' = Some (Flt c)"
  shows "cell_at out r ''sentiment_label'' = Some (Str (categorize_sentiment c))
       \<and> (categorize_sentiment c = ''positive'' \<longleftrightarrow> c \<ge> 0.05)
       \<and> (categorize_sentiment c = ''negative'' \<longleftrightarrow> c \<le> - 0.05)
       \<and> (categorize_sentiment c = ''neutral'' \<longleftrightarrow> \<not> c \<ge> 0.05 \<and> \<not> c \<le> - 0.05)
       \<and> categorize_sentiment c \<in> {''positive'', ''negative'', ''neutral''}"
proof -
  have thresholds: "(categorize_sentiment c = ''positive'' \<longleftrightarrow> c \<ge> 0.05)
       \<and> (categorize_sentiment c = ''negative'' \<longleftrightarrow> c \<le> - 0.05)
       \<and> (categorize_sentiment c = ''neutral'' \<longleftrightarrow> \<not> c \<ge> 0.05 \<and> \<not> c \<le> - 0.05)
       \<and> categorize_sentiment c \<in> {''positive'', ''negative'', ''neutral''}"
    by (simp add: categorize_sentiment_def)
  have "cell_at out r ''sentiment_label'' = Some (Str (categorize_sentiment c))"
  proof (cases "df_empty df")
    case True
    with run have out: "out = df" by (simp add: add_sentiment_analysis_def)
    with member True have "columns df = []" by (auto simp: df_empty_def)
    with score out show ?thesis by (simp add: cell_at_def has_column_def)
  next
    case False
    from False run obtain rs where rs: "apply_scores render polarity_scores df (rows df) = Inr rs"
      and feat: "date_features parse
                  (assign ''sentiment_label'' label_of
                    \<lparr>columns = columns df @ filter (\<lambda>c. c \<notin> set (columns df)) sentiment_columns,
                     rows = rs\<rparr>) = Inr out"
      by (auto simp: add_sentiment_analysis_def split: sum.splits if_splits)
    from date_features_rows[OF feat member] obtain r1 where
      r1: "r1 \<in> set (rows (assign ''sentiment_label'' label_of
                    \<lparr>columns = columns df @ filter (\<lambda>c. c \<notin> set (columns df)) sentiment_columns,
                     rows = rs\<rparr>))"
      and same: "\<forall>c. c \<notin> {''publishedAt'', ''date'', ''hour'', ''day_of_week''} \<longrightarrow> r c = r1 c"
      by blast
    from assign_rows[OF r1] obtain r2 where r2: "r2 \<in> set rs"
      and r1_eq: "r1 = r2(''sentiment_label'' \<mapsto> label_of r2)" by auto
    from apply_scores_rows[OF rs r2] obtain r0 s where r2_eq: "r2 = with_scores r0 s" by blast
    have lab: "val r ''sentiment_label'' = label_of r2"
      using same r1_eq by (simp add: val_def)
    have comp: "val r ''sentiment_compound'' = Flt (compound s)"
      using same r1_eq r2_eq by (simp add: val_def with_scores_def)
    from score have "val r ''sentiment_compound'' = Flt c"
      by (simp add: cell_at_def split: if_splits)
    with comp have c: "compound s = c" by simp
    have "label_of r2 = Str (categorize_sentiment c)"
      using c by (simp add: label_of_def r2_eq val_with_scores_compound)
    moreover have "has_column out ''sentiment_label''"
      using date_features_columns[OF feat] by (auto simp: has_column_def assign_columns)
    ultimately show ?thesis using lab by (simp add: cell_at_def)
  qed
  with thresholds show ?thesis by blast
qed

text \<open>
  Claim C3, as amended. For every input frame that has at least one column, every row of
  the transformer's output carries a compound score and a label, and the label is the
  categorisation of the score: \<open>positive\<close> exactly when the score is at least
  \<open>0.05\<close>, \<open>negative\<close> exactly when it is at most \<open>-0.05\<close>, \<open>neutral\<close>
  exactly when it is neither. The label depends on the compound score alone and is one of
  the three.
\<close>

theorem sentiment_label_thresholds:
  assumes cols: "columns df \<noteq> []"
    and run: "add_sentiment_analysis render polarity_scores parse df = Inr out"
    and member: "r \<in> set (rows out)"
  shows "\<exists>c. cell_at out r ''sentiment_compound'' = Some (Flt c)
           \<and> cell_at out r ''sentiment_label'' = Some (Str (categorize_sentiment c))
           \<and> (categorize_sentiment c = ''positive'' \<longleftrightarrow> c \<ge> 0.05)
           \<and> (categorize_sentiment c = ''negative'' \<longleftrightarrow> c \<le> - 0.05)
           \<and> (categorize_sentiment c = ''neutral'' \<longleftrightarrow> \<not> c \<ge> 0.05 \<and> \<not> c \<le> - 0.05)
           \<and> categorize_sentiment c \<in> {''positive'', ''negative'', ''neutral''}"
proof -
  have nonempty: "\<not> df_empty df"
  proof
    assume e: "df_empty df"
    with run have "out = df" by (simp add: add_sentiment_analysis_def)
    moreover from e cols have "rows df = []" by (simp add: df_empty_def)
    ultimately show False using member by simp
  qed
  from scored_rows[OF run nonempty member] obtain c where
    c: "cell_at out r ''sentiment_compound'' = Some (Flt c)" by blast
  from label_of_scored_row[OF run member c] c show ?thesis by blast
qed

theorem sentiment_label_thresholds_witness:
  "columns demo_table \<noteq> []
   \<and> add_sentiment_analysis (\<lambda>_. []) demo_scorer (\<lambda>_. None) demo_table = Inr demo_scored
   \<and> demo_scored_row \<in> set (rows demo_scored)
   \<and> cell_at demo_scored demo_scored_row ''sentiment_compound'' = Some (Flt 0.6)
   \<and> cell_at demo_scored demo_scored_row ''sentiment_label'' = Some (Str ''positive'')
   \<and> categorize_sentiment 0.6 = ''positive''"
proof -
  have cols: "columns demo_table \<noteq> []"
    by (simp add: demo_table_def)
  have member: "demo_scored_row \<in> set (rows demo_scored)"
    by (simp add: demo_scored_def)
  have score: "cell_at demo_scored demo_scored_row ''sentiment_compound'' = Some (Flt 0.6)"
    by (simp add: cell_at_def has_column_def val_def demo_scored_def demo_scored_row_def)
  have positive: "categorize_sentiment 0.6 = ''positive''"
    by (simp add: categorize_sentiment_def)
  from sentiment_label_thresholds[OF cols demo_scored_run member] obtain c where
    sc: "cell_at demo_scored demo_scored_row ''sentiment_compound'' = Some (Flt c)"
    and lab: "cell_at demo_scored demo_scored_row ''sentiment_label'' = Some (Str (categorize_sentiment c))"
    by blast
  from trans[OF sc[symmetric] score] have c: "c = 0.6"
    by (simp only: option.inject cell.inject)
  from lab have "cell_at demo_scored demo_scored_row ''sentiment_label'' = Some (Str ''positive'')"
    unfolding c positive .
  with cols demo_scored_run member score positive show ?thesis by simp
qed

text \<open>
  The claim as it was stated, for every row of the output, fails on a frame with an index
  and no column: the frame is empty to the transformer, which returns it as it is (lines
  22--24), and its one row has neither score nor label.
\<close>

theorem unscored_columnless_counterexample:
  "add_sentiment_analysis (\<lambda>v. []) demo_scorer no_parse columnless = Inr columnless
   \<and> rows columnless = [Map.empty]
   \<and> cell_at columnless Map.empty ''sentiment_compound'' = None
   \<and> cell_at columnless Map.empty ''sentiment_label'' = None"
  by (simp add: add_sentiment_analysis_def df_empty_def columnless_def cell_at_def has_column_def)

section \<open>Properties of the loader\<close>










section \<open>Properties of the pipeline runner\<close>

lemma demo_extracted_vals:
  "val demo_extracted_row ''title'' = Str ''Stocks soar to record highs''"
  "val demo_extracted_row ''description'' = Str ''Markets rallied today on strong earnings''"
  "val demo_extracted_row ''url'' = Str ''https://example.org/a''"
  "val demo_extracted_row ''publishedAt'' = Time 1704153600"
  by (simp_all add: val_def demo_extracted_row_def)

lemma demo_extracted_parsed:
  "demo_extracted_row(''publishedAt'' \<mapsto> Time 1704153600) = demo_extracted_row"
  by (rule map_upd_triv) (simp add: demo_extracted_row_def)

lemma run_checks_demo:
  "run_checks demo_parse 1704326403 demo_extracted =
     Inr (demo_extracted,
          \<lparr>missing_values = [(''title'', 0), (''description'', 0), (''url'', 0), (''publishedAt'', 0)],
           duplicates = 0,
           freshness = Some \<lparr>oldest = 1704153600, newest = 1704153600, span_days = 2\<rparr>,
           content = \<lparr>short_titles = 0, short_descriptions = 0\<rparr>\<rparr>)"
  by (simp add: run_checks_def duplicated_count_def subset_check_def has_column_def len_def
      check_missing_def critical_fields_def missing_count_def count_rows_def
      isnull_def check_content_def len_lt_def str_len_def check_freshness_def
      to_datetime_def column_times_def time_of_def List.map_filter_def
      demo_extracted_def demo_extracted_vals demo_extracted_parsed)

lemma cleaning_demo: "cleaning demo_extracted = Inr demo_extracted"
  by (simp add: cleaning_def dropna_def drop_duplicates_def subset_check_def has_column_def
      isnull_def keep_rows_def len_ge_def str_len_def demo_extracted_def demo_extracted_vals)

lemma validate_demo:
  "validate_news_data demo_parse 1704326402 1704326403 demo_extracted =
     Inr (demo_extracted, demo_extracted, demo_report)"
proof -
  have e: "\<not> df_empty demo_extracted" by (simp add: df_empty_def demo_extracted_def)
  have l: "len demo_extracted = 1" by (simp add: len_def demo_extracted_def)
  show ?thesis
    by (simp add: validate_news_data_def e run_checks_demo cleaning_demo final_report_def l
        percentage_def demo_report_def)
qed

lemma transform_demo:
  "add_sentiment_analysis (\<lambda>v. []) demo_scorer demo_parse demo_extracted = Inr demo_final"
proof -
  have e: "\<not> df_empty demo_extracted" by (simp add: df_empty_def demo_extracted_def)
  have s: "apply_scores (\<lambda>v. []) demo_scorer demo_extracted (rows demo_extracted) =
      Inr [with_scores demo_extracted_row
            \<lparr>compound = 0.6, pos = 0.5, neg = 0, neu = 0.5\<rparr>]"
    by (simp add: demo_extracted_def analyze_article_def row_get_str_def cell_at_def
        has_column_def demo_extracted_vals py_str_def demo_scorer_def)
  show ?thesis
    by (simp add: add_sentiment_analysis_def e s)
      (simp add: demo_extracted_def has_column_def sentiment_columns_def assign_def label_of_def
        with_scores_def val_upd categorize_sentiment_def date_features_def to_datetime_def
        demo_extracted_vals dt_date_def dt_hour_def dt_day_name_def day_names_def
        demo_final_def demo_final_row_def)
qed

lemma mean_demo: "column_mean demo_final ''sentiment_compound'' = Inr (Some 0.6)"
proof -
  have v: "val demo_final_row ''sentiment_compound'' = Flt 0.6"
    by (simp add: demo_final_row_def val_upd)
  have n: "number_of (Flt x) = Some x" for x
    by (simp add: number_of_def)
  show ?thesis
    by (simp add: column_mean_def has_column_def demo_final_def v n List.map_filter_def
        del: not_None_eq)
qed

lemma show_nat_1: "show_nat (Suc 0) = ''1''"
  by (simp add: show_nat.simps)

text \<open>
  Claim C4. If extraction returns an empty frame, the run halts after stage 1: the overall
  status is \<open>FAILED\<close>, the extract step is recorded, the only call made is the
  extractor's, so neither the validator, the transformer nor the loader is invoked, and
  the database is untouched.
\<close>

theorem empty_extraction_halts:
  assumes extracted: "extract_stage st days_back n = Inr df_raw"
    and empty: "df_empty df_raw"
    and run: "run_full_pipeline st days_back n db = (ps, calls, db')"
  shows "overall_status ps = ''FAILED''
       \<and> steps ps = [(''extract'', ''FAILED - No data'')]
       \<and> end_time ps = None
       \<and> calls = [Extract_financial_news]
       \<and> Validate_news_data \<notin> set calls
       \<and> Add_sentiment_analysis \<notin> set calls
       \<and> Load_to_duckdb \<notin> set calls
       \<and> db' = db"
  using assms by (auto simp: run_full_pipeline_def failed_def Let_def)

lemma extract_timeout:
  "extract_stage (repository_stages (demo_world (Inl (RequestException ''timed out'')) plain_engine))
      7 50 = Inr DataFrame_empty"
  by (simp add: repository_stages_def demo_world_def extract_financial_news_def fetch_def
      demo_env_def)

lemma run_timeout:
  "run_full_pipeline
      (repository_stages (demo_world (Inl (RequestException ''timed out'')) plain_engine))
      7 50 no_database =
     (\<lparr>start_time = 1704326400, steps = [(''extract'', ''FAILED - No data'')],
       overall_status = ''FAILED'', end_time = None\<rparr>,
      [Extract_financial_news], no_database)"
proof -
  have e: "df_empty DataFrame_empty" by (simp add: df_empty_def DataFrame_empty_def)
  have c: "clock_start (repository_stages (demo_world x y)) = 1704326400" for x y
    by (simp add: repository_stages_def demo_world_def)
  show ?thesis
    by (simp add: run_full_pipeline_def Let_def extract_timeout e failed_def c)
qed

theorem empty_extraction_halts_witness:
  "extract_stage (repository_stages (demo_world (Inl (RequestException ''timed out'')) plain_engine))
      7 50 = Inr DataFrame_empty
   \<and> df_empty DataFrame_empty
   \<and> run_full_pipeline
        (repository_stages (demo_world (Inl (RequestException ''timed out'')) plain_engine))
        7 50 no_database =
       (\<lparr>start_time = 1704326400, steps = [(''extract'', ''FAILED - No data'')],
         overall_status = ''FAILED'', end_time = None\<rparr>,
        [Extract_financial_news], no_database)"
proof -
  have e: "df_empty DataFrame_empty" by (simp add: df_empty_def DataFrame_empty_def)
  from empty_extraction_halts[OF extract_timeout e run_timeout] extract_timeout e run_timeout
  show ?thesis by simp
qed

text \<open>
  Claim C5. If the first three stages succeed with frames that are not empty and the load
  stage returns false or raises, the run ends with the overall status \<open>WARNING\<close>, not
  \<open>FAILED\<close>: all stages were called, the load step is recorded as failed and the run
  reaches its summary.
\<close>

theorem load_failure_warns:
  assumes extracted: "extract_stage st days_back n = Inr df_raw" "\<not> df_empty df_raw"
      "save_raw_stage st df_raw = None"
    and validated: "validate_stage st df_raw = Inr (df_clean, report)" "\<not> df_empty df_clean"
      "save_report_stage st report = None"
    and transformed: "transform_stage st df_clean = Inr df_final" "\<not> df_empty df_final"
      "save_transformed_stage st df_final = None"
      "column_mean df_final ''sentiment_compound'' = Inr avg"
    and load_fails: "load_stage st df_final db = (Inr False, db1)
                   \<or> (\<exists>e. load_stage st df_final db = (Inl e, db1))"
    and run: "run_full_pipeline st days_back n db = (ps, calls, db')"
  shows "overall_status ps = ''WARNING''
       \<and> overall_status ps \<noteq> ''FAILED''
       \<and> map fst (steps ps) = [''extract'', ''validate'', ''transform'', ''load'']
       \<and> end_time ps = Some (clock_end st)
       \<and> calls = all_calls
       \<and> db' = db1"
proof -
  let ?ps3 = "recorded (recorded (recorded
       \<lparr>start_time = clock_start st, steps = [], overall_status = ''SUCCESS'', end_time = None\<rparr>
       ''extract'' (''SUCCESS - '' @ show_nat (len df_raw) @ '' articles''))
       ''validate'' (''SUCCESS - '' @ show_nat (len df_clean) @ '' clean records''))
       ''transform'' (''SUCCESS - Avg sentiment: '' @ format_3f st avg)"
  have reach: "run_full_pipeline st days_back n db = stage_load st ?ps3 (butlast all_calls) db df_final"
    using extracted validated transformed
    by (simp add: run_full_pipeline_def stage_validate_def stage_transform_def Let_def
        all_calls_def)
  from load_fails have "\<exists>msg. stage_load st ?ps3 (butlast all_calls) db df_final =
      (finished st (degraded ?ps3 ''load'' msg), all_calls, db1)"
    by (auto simp: stage_load_def all_calls_def)
  with reach run obtain msg where
    "ps = finished st (degraded ?ps3 ''load'' msg)" "calls = all_calls" "db' = db1"
    by auto
  then show ?thesis
    by (simp add: finished_def degraded_def recorded_def)
qed

lemma locked_stages:
  fixes S defines "S \<equiv> repository_stages (demo_world (Inr ok_response) locked_engine)"
  shows "extract_stage S 7 50 = Inr demo_extracted"
    and "save_raw_stage S demo_extracted = None"
    and "validate_stage S demo_extracted = Inr (demo_extracted, demo_report)"
    and "save_report_stage S demo_report = None"
    and "transform_stage S demo_extracted = Inr demo_final"
    and "save_transformed_stage S demo_final = None"
    and "load_stage S demo_final no_database = (Inr False, no_database)"
    and "format_3f S avg = ''0.600''"
    and "clock_start S = 1704326400"
    and "clock_end S = 1704326405"
proof -
  have x: "extract_financial_news (demo_env (Inr ok_response)) default_keywords 7 50 = Inr demo_extracted"
    by (rule extract_demo) (simp_all add: ok_response_def)
  show "extract_stage S 7 50 = Inr demo_extracted"
    by (simp add: S_def repository_stages_def demo_world_def x)
  show "save_raw_stage S demo_extracted = None"
    by (simp add: S_def repository_stages_def demo_world_def save_raw_data_def)
  show "validate_stage S demo_extracted = Inr (demo_extracted, demo_report)"
    by (simp add: S_def repository_stages_def demo_world_def validate_demo)
  show "save_report_stage S demo_report = None"
    by (simp add: S_def repository_stages_def demo_world_def save_quality_report_def demo_report_def)
  show "transform_stage S demo_extracted = Inr demo_final"
    by (simp add: S_def repository_stages_def demo_world_def transform_demo)
  show "save_transformed_stage S demo_final = None"
    by (simp add: S_def repository_stages_def demo_world_def save_transformed_data_def)
  have e: "\<not> df_empty demo_final" by (simp add: df_empty_def demo_final_def)
  have l: "load_to_duckdb locked_engine t demo_final p db = (False, db)" for t p db
    by (simp add: load_to_duckdb_def e locked_engine_def)
  show "load_stage S demo_final no_database = (Inr False, no_database)"
    by (simp add: S_def repository_stages_def demo_world_def l)
  show "format_3f S avg = ''0.600''"
    by (simp add: S_def repository_stages_def demo_world_def)
  show "clock_start S = 1704326400"
    by (simp add: S_def repository_stages_def demo_world_def)
  show "clock_end S = 1704326405"
    by (simp add: S_def repository_stages_def demo_world_def)
qed

lemma demo_nonempty: "\<not> df_empty demo_extracted" "\<not> df_empty demo_final"
  "len demo_extracted = 1" "len demo_final = 1"
  by (simp_all add: df_empty_def len_def demo_extracted_def demo_final_def)

lemma run_locked:
  "run_full_pipeline (repository_stages (demo_world (Inr ok_response) locked_engine)) 7 50
      no_database =
     (\<lparr>start_time = 1704326400,
       steps = [(''extract'', ''SUCCESS - 1 articles''),
                (''validate'', ''SUCCESS - 1 clean records''),
                (''transform'', ''SUCCESS - Avg sentiment: 0.600''),
                (''load'', ''FAILED'')],
       overall_status = ''WARNING'', end_time = Some 1704326405\<rparr>,
      all_calls, no_database)"
  by (simp add: run_full_pipeline_def stage_validate_def stage_transform_def stage_load_def
      Let_def locked_stages demo_nonempty mean_demo show_nat_1 recorded_def degraded_def
      finished_def all_calls_def)

theorem load_failure_warns_witness:
  "extract_stage (repository_stages (demo_world (Inr ok_response) locked_engine)) 7 50
       = Inr demo_extracted
   \<and> \<not> df_empty demo_extracted
   \<and> validate_stage (repository_stages (demo_world (Inr ok_response) locked_engine)) demo_extracted
       = Inr (demo_extracted, demo_report)
   \<and> transform_stage (repository_stages (demo_world (Inr ok_response) locked_engine)) demo_extracted
       = Inr demo_final
   \<and> \<not> df_empty demo_final
   \<and> load_stage (repository_stages (demo_world (Inr ok_response) locked_engine)) demo_final
        no_database = (Inr False, no_database)
   \<and> run_full_pipeline (repository_stages (demo_world (Inr ok_response) locked_engine)) 7 50
        no_database =
       (\<lparr>start_time = 1704326400,
         steps = [(''extract'', ''SUCCESS - 1 articles''),
                  (''validate'', ''SUCCESS - 1 clean records''),
                  (''transform'', ''SUCCESS - Avg sentiment: 0.600''),
                  (''load'', ''FAILED'')],
         overall_status = ''WARNING'', end_time = Some 1704326405\<rparr>,
        all_calls, no_database)"
proof -
  have "overall_status \<lparr>start_time = 1704326400,
         steps = [(''extract'', ''SUCCESS - 1 articles''),
                  (''validate'', ''SUCCESS - 1 clean records''),
                  (''transform'', ''SUCCESS - Avg sentiment: 0.600''),
                  (''load'', ''FAILED'')],
         overall_status = ''WARNING'', end_time = Some 1704326405\<rparr> = ''WARNING''"
    using load_failure_warns[OF locked_stages(1) demo_nonempty(1) locked_stages(2)
        locked_stages(3) demo_nonempty(1) locked_stages(4) locked_stages(5) demo_nonempty(2)
        locked_stages(6) mean_demo disjI1[OF locked_stages(7)] run_locked]
    by blast
  then show ?thesis
    using locked_stages demo_nonempty run_locked by simp
qed

end
